theory Spec2Isabelle
  imports Complex_Main "HOL-Library.Word"
begin

unbundle bit_operations_syntax

text \<open>
  A model of the hardware abstraction layer of the StampFly flight-controller firmware
  (\<open>components/hal\<close>): the lifecycle base class and the ADC, I2C, timer/interrupt and
  GPIO drivers, followed by the properties of the specification that concern them. Each
  C++ member function is a function from the object before the call to the return code
  and the object after it; the platform services the drivers call are parameters.
\<close>

section \<open>Common types of the HAL\<close>

text \<open>
  \<open>esp_err_t\<close> is a plain C \<open>int\<close>; the drivers combine return codes with \<open>|=\<close>, so
  the codes are kept as integers. The numeric values are those of the platform header
  \<open>esp_err.h\<close>.
\<close>

type_synonym esp_err_t = int

definition ESP_OK :: esp_err_t where "ESP_OK = 0"
definition ESP_FAIL :: esp_err_t where "ESP_FAIL = - 1"
definition ESP_ERR_NO_MEM :: esp_err_t where "ESP_ERR_NO_MEM = 0x101"
definition ESP_ERR_INVALID_ARG :: esp_err_t where "ESP_ERR_INVALID_ARG = 0x102"
definition ESP_ERR_INVALID_STATE :: esp_err_t where "ESP_ERR_INVALID_STATE = 0x103"
definition ESP_ERR_NOT_FOUND :: esp_err_t where "ESP_ERR_NOT_FOUND = 0x105"
definition ESP_ERR_NOT_SUPPORTED :: esp_err_t where "ESP_ERR_NOT_SUPPORTED = 0x106"
definition ESP_ERR_TIMEOUT :: esp_err_t where "ESP_ERR_TIMEOUT = 0x107"

subsection \<open>HalBase: the lifecycle state shared by every driver\<close>

datatype State = UNINITIALIZED | INITIALIZING | INITIALIZED | RUNNING | ERROR | SUSPENDED

datatype Priority = LOW | NORMAL | HIGH | CRITICAL

record HalBase =
  state :: State
  priority :: Priority

text \<open>
  Member names are written without the trailing underscore of the source (\<open>state_\<close> is
  \<open>state\<close>). \<open>HalBase::setState\<close> follows; the log line it prints is not part of the
  model.
\<close>

definition setState :: "State \<Rightarrow> 'a HalBase_scheme \<Rightarrow> 'a HalBase_scheme" where
  "setState new_state h = (if state h \<noteq> new_state then h\<lparr>state := new_state\<rparr> else h)"

definition getState :: "'a HalBase_scheme \<Rightarrow> State" where
  "getState h = state h"

definition hasError :: "'a HalBase_scheme \<Rightarrow> bool" where
  "hasError h = (state h = ERROR)"

definition isInitialized :: "'a HalBase_scheme \<Rightarrow> bool" where
  "isInitialized h = (state h = INITIALIZED \<or> state h = RUNNING)"

definition isRunning :: "'a HalBase_scheme \<Rightarrow> bool" where
  "isRunning h = (state h = RUNNING)"

section \<open>ADC driver (adc\_hal.cpp)\<close>

type_synonym adc_channel_t = int
type_synonym adc_cali_handle_t = nat  \<comment> \<open>a pointer; 0 is \<open>nullptr\<close>\<close>

datatype Unit = UNIT_1 | UNIT_2
datatype Attenuation = DB_0 | DB_2_5 | DB_6 | DB_11
datatype BitWidth =
  WIDTH_9BIT | WIDTH_10BIT | WIDTH_11BIT | WIDTH_12BIT | WIDTH_13BIT | WIDTH_DEFAULT

record ChannelConfig =
  channel :: adc_channel_t
  attenuation :: Attenuation
  calibration_enable :: bool

record Config =
  unit :: Unit
  bit_width :: BitWidth
  default_vref :: "32 word"   \<comment> \<open>\<open>uint32_t\<close>, millivolts\<close>

text \<open>
  \<open>ReadResult\<close>: the two \<open>int\<close> fields are 32-bit machine integers; \<open>sint\<close> reads
  them as the signed values the C code sees.
\<close>

record ReadResult =
  raw_value :: "32 word"
  voltage_mv :: "32 word"
  calibrated :: bool

text \<open>
  The ADC peripheral driver of the platform, which the class wraps. Its functions are not
  part of the repository, so they are parameters of the model. A function with an
  out-parameter yields the return code together with the value found in the out-parameter
  after the call. \<open>adc_oneshot_read\<close> receives the number of conversions performed so
  far, so that successive samples may differ; \<open>adc_cali_raw_to_voltage\<close> receives the
  previous content of its out-parameter, so that it may leave it untouched.
\<close>

record adc_driver =
  adc_oneshot_new_unit :: "Unit \<Rightarrow> esp_err_t"
  adc_oneshot_config_channel :: "adc_channel_t \<Rightarrow> Attenuation \<Rightarrow> BitWidth \<Rightarrow> esp_err_t"
  adc_oneshot_read :: "nat \<Rightarrow> adc_channel_t \<Rightarrow> esp_err_t \<times> 32 word"
  adc_cali_create_scheme_curve_fitting ::
    "Unit \<Rightarrow> adc_channel_t \<Rightarrow> Attenuation \<Rightarrow> BitWidth \<Rightarrow> esp_err_t \<times> adc_cali_handle_t"
  adc_cali_raw_to_voltage ::
    "adc_cali_handle_t \<Rightarrow> 32 word \<Rightarrow> 32 word \<Rightarrow> esp_err_t \<times> 32 word"

text \<open>
  Single-precision arithmetic as used by the filter. The operations of the C \<open>float\<close>
  type are parameters: every statement below holds for any interpretation of them.
\<close>

record 'f float_ops =
  f_of_int :: "32 word \<Rightarrow> 'f"          \<comment> \<open>\<open>static_cast<float>(int)\<close>\<close>
  f_to_int :: "'f \<Rightarrow> 32 word"          \<comment> \<open>\<open>static_cast<int>(float)\<close>\<close>
  f_mul :: "'f \<Rightarrow> 'f \<Rightarrow> 'f"
  f_add :: "'f \<Rightarrow> 'f \<Rightarrow> 'f"
  f_sub :: "'f \<Rightarrow> 'f \<Rightarrow> 'f"
  f_less :: "'f \<Rightarrow> 'f \<Rightarrow> bool"
  f_zero :: 'f                           \<comment> \<open>\<open>0.0f\<close>\<close>
  f_one :: 'f                            \<comment> \<open>\<open>1.0f\<close>\<close>

text \<open>
  The object (\<open>config_\<close> is \<open>adc_config\<close> here). \<open>channels\<close> is a \<open>std::map\<close> that
  is iterated, so it is kept as a key-sorted association list; the other two maps are
  only looked up. \<open>adc_reads\<close> counts the conversions requested from the hardware (it is the history the driver
  parameter may depend on, and makes "a sample was taken" observable).
\<close>

record 'f AdcHal = HalBase +
  adc_config :: Config
  adc_handle :: bool     \<comment> \<open>whether the unit handle is non-null\<close>
  channels :: "(adc_channel_t \<times> ChannelConfig) list"
  calibration_handles :: "adc_channel_t \<rightharpoonup> adc_cali_handle_t"
  filter_values :: "adc_channel_t \<rightharpoonup> 'f"
  adc_reads :: nat

text \<open>\<open>std::map::operator[]\<close> assignment on the sorted association list.\<close>

fun map_assign :: "int \<Rightarrow> 'v \<Rightarrow> (int \<times> 'v) list \<Rightarrow> (int \<times> 'v) list" where
  "map_assign k v [] = [(k, v)]"
| "map_assign k v ((k', v') # rest) =
     (if k < k' then (k, v) # (k', v') # rest
      else if k = k' then (k, v) # rest
      else (k', v') # map_assign k v rest)"

definition AdcHal_new :: "Unit \<Rightarrow> 'f AdcHal" where
  "AdcHal_new u =
     \<lparr>state = UNINITIALIZED, priority = NORMAL,
      adc_config = \<lparr>unit = u, bit_width = WIDTH_DEFAULT, default_vref = 1100\<rparr>,
      adc_handle = False, channels = [], calibration_handles = Map.empty,
      filter_values = Map.empty, adc_reads = 0\<rparr>"

definition initialize :: "adc_driver \<Rightarrow> 'f AdcHal \<Rightarrow> esp_err_t \<times> 'f AdcHal" where
  "initialize drv s =
     (let s1 = setState INITIALIZING s;
          ret = adc_oneshot_new_unit drv (unit (adc_config s1))
      in if ret \<noteq> ESP_OK then (ret, setState ERROR s1)
         else (ESP_OK, setState INITIALIZED (s1\<lparr>adc_handle := True\<rparr>)))"

definition destroyCalibrationHandle :: "adc_channel_t \<Rightarrow> 'f AdcHal \<Rightarrow> 'f AdcHal" where
  "destroyCalibrationHandle ch s =
     (case calibration_handles s ch of
        Some h \<Rightarrow>
          if h \<noteq> 0 then s\<lparr>calibration_handles := (calibration_handles s)(ch := None)\<rparr>
          else s
      | None \<Rightarrow> s)"

definition createCalibrationHandle ::
  "adc_driver \<Rightarrow> adc_channel_t \<Rightarrow> Attenuation \<Rightarrow> 'f AdcHal \<Rightarrow> esp_err_t \<times> 'f AdcHal" where
  "createCalibrationHandle drv ch att s =
     (let s1 = destroyCalibrationHandle ch s;
          (ret, handle) =
            adc_cali_create_scheme_curve_fitting drv (unit (adc_config s1)) ch att
              (bit_width (adc_config s1))
      in if ret \<noteq> ESP_OK then (ret, s1)
         else (ESP_OK, s1\<lparr>calibration_handles := (calibration_handles s1)(ch \<mapsto> handle)\<rparr>))"

definition configureChannel ::
  "adc_driver \<Rightarrow> ChannelConfig \<Rightarrow> 'f AdcHal \<Rightarrow> esp_err_t \<times> 'f AdcHal" where
  "configureChannel drv channel_config s =
     (if \<not> isInitialized s then (ESP_ERR_INVALID_STATE, s)
      else
        let ret = adc_oneshot_config_channel drv (channel channel_config)
                    (attenuation channel_config) (bit_width (adc_config s))
        in if ret \<noteq> ESP_OK then (ret, s)
           else
             let s1 = s\<lparr>channels :=
                         map_assign (channel channel_config) channel_config (channels s)\<rparr>
             in if calibration_enable channel_config
                then (ESP_OK,
                      snd (createCalibrationHandle drv (channel channel_config)
                             (attenuation channel_config) s1))
                else (ESP_OK, s1))"

text \<open>The loop of \<open>AdcHal::configure\<close> over the stored channels, in key order.\<close>

fun configure_channels ::
  "adc_driver \<Rightarrow> (adc_channel_t \<times> ChannelConfig) list \<Rightarrow> 'f AdcHal \<Rightarrow> esp_err_t \<times> 'f AdcHal" where
  "configure_channels drv [] s = (ESP_OK, s)"
| "configure_channels drv (pair # rest) s =
     (case configureChannel drv (snd pair) s of
        (ret, s1) \<Rightarrow> if ret \<noteq> ESP_OK then (ret, s1) else configure_channels drv rest s1)"

definition configure :: "adc_driver \<Rightarrow> 'f AdcHal \<Rightarrow> esp_err_t \<times> 'f AdcHal" where
  "configure drv s =
     (if \<not> isInitialized s then (ESP_ERR_INVALID_STATE, s)
      else configure_channels drv (channels s) s)"

definition start :: "'f AdcHal \<Rightarrow> esp_err_t \<times> 'f AdcHal" where
  "start s =
     (if \<not> isInitialized s then (ESP_ERR_INVALID_STATE, s)
      else (ESP_OK, setState RUNNING s))"

definition stop :: "'f AdcHal \<Rightarrow> esp_err_t \<times> 'f AdcHal" where
  "stop s = (ESP_OK, setState SUSPENDED s)"

definition reset :: "'f AdcHal \<Rightarrow> esp_err_t \<times> 'f AdcHal" where
  "reset s = (ESP_OK, setState INITIALIZED (s\<lparr>filter_values := Map.empty\<rparr>))"

definition setConfig :: "Config \<Rightarrow> 'f AdcHal \<Rightarrow> esp_err_t \<times> 'f AdcHal" where
  "setConfig cfg s = (ESP_OK, s\<lparr>adc_config := cfg\<rparr>)"

definition isValidChannel :: "'f AdcHal \<Rightarrow> adc_channel_t \<Rightarrow> bool" where
  "isValidChannel s ch =
     (if unit (adc_config s) = UNIT_1 then 0 \<le> ch \<and> ch \<le> 9 else 0 \<le> ch \<and> ch \<le> 9)"

text \<open>
  \<open>AdcHal::read\<close>. In \<open>(result.raw_value * config_.default_vref) / 4095\<close> the \<open>int\<close>
  operand is converted to \<open>uint32_t\<close>, so product and quotient are unsigned 32-bit; the
  quotient is stored back into an \<open>int\<close>.
\<close>

definition read ::
  "adc_driver \<Rightarrow> adc_channel_t \<Rightarrow> ReadResult \<Rightarrow> 'f AdcHal
     \<Rightarrow> esp_err_t \<times> ReadResult \<times> 'f AdcHal" where
  "read drv ch result s =
     (if \<not> isRunning s then (ESP_ERR_INVALID_STATE, result, s)
      else
        let (ret, raw) = adc_oneshot_read drv (adc_reads s) ch;
            s1 = s\<lparr>adc_reads := Suc (adc_reads s)\<rparr>;
            r1 = result\<lparr>raw_value := raw\<rparr>
        in if ret \<noteq> ESP_OK then (ret, r1, s1)
           else
             let r2 = r1\<lparr>calibrated := False\<rparr>;
                 estimate = r2\<lparr>voltage_mv := (raw * default_vref (adc_config s1)) div 4095\<rparr>
             in case calibration_handles s1 ch of
                  Some h \<Rightarrow>
                    if h \<noteq> 0 then
                      (let (cret, v) = adc_cali_raw_to_voltage drv h raw (voltage_mv r2)
                       in if cret = ESP_OK
                          then (ESP_OK, r2\<lparr>voltage_mv := v, calibrated := True\<rparr>, s1)
                          else (ESP_OK, estimate, s1))
                    else (ESP_OK, estimate, s1)
                | None \<Rightarrow> (ESP_OK, estimate, s1))"

text \<open>
  \<open>AdcHal::readAverage\<close>. The sampling loop stops at the first failed conversion. The
  sum is an \<open>int\<close> (\<open>std::accumulate\<close> with initial value \<open>0\<close>); dividing it by the
  \<open>size_t\<close> count is an unsigned 32-bit division, and a zero divisor would be undefined
  behaviour, which the model makes visible as \<open>None\<close>.
\<close>

fun sample_loop ::
  "adc_driver \<Rightarrow> adc_channel_t \<Rightarrow> nat \<Rightarrow> 32 word list \<Rightarrow> 'f AdcHal
     \<Rightarrow> esp_err_t \<times> 32 word list \<times> 'f AdcHal" where
  "sample_loop drv ch 0 raw_values s = (ESP_OK, raw_values, s)"
| "sample_loop drv ch (Suc n) raw_values s =
     (let (ret, raw) = adc_oneshot_read drv (adc_reads s) ch;
          s1 = s\<lparr>adc_reads := Suc (adc_reads s)\<rparr>
      in if ret \<noteq> ESP_OK then (ret, raw_values, s1)
         else sample_loop drv ch n (raw_values @ [raw]) s1)"

definition accumulate :: "32 word list \<Rightarrow> 32 word \<Rightarrow> 32 word" where
  "accumulate xs init = foldl (+) init xs"

definition checked_div :: "32 word \<Rightarrow> 32 word \<Rightarrow> 32 word option" where
  "checked_div a b = (if b = 0 then None else Some (a div b))"

definition readAverage ::
  "adc_driver \<Rightarrow> adc_channel_t \<Rightarrow> 32 word \<Rightarrow> ReadResult \<Rightarrow> 'f AdcHal
     \<Rightarrow> (esp_err_t \<times> ReadResult \<times> 'f AdcHal) option" where
  "readAverage drv ch samples result s =
     (if \<not> isRunning s then Some (ESP_ERR_INVALID_STATE, result, s)
      else if samples = 0 then Some (ESP_ERR_INVALID_ARG, result, s)
      else
        case sample_loop drv ch (unat samples) [] s of
          (ret, raw_values, s1) \<Rightarrow>
            if ret \<noteq> ESP_OK then Some (ret, result, s1)
            else
              (case checked_div (accumulate raw_values 0) samples of
                 None \<Rightarrow> None
               | Some mean \<Rightarrow>
                   let r2 = result\<lparr>raw_value := mean, calibrated := False\<rparr>;
                       estimate =
                         r2\<lparr>voltage_mv := (mean * default_vref (adc_config s1)) div 4095\<rparr>
                   in (case calibration_handles s1 ch of
                         Some h \<Rightarrow>
                           if h \<noteq> 0 then
                             (let (cret, v) = adc_cali_raw_to_voltage drv h mean (voltage_mv r2)
                              in if cret = ESP_OK
                                 then Some (ESP_OK, r2\<lparr>voltage_mv := v, calibrated := True\<rparr>, s1)
                                 else Some (ESP_OK, estimate, s1))
                           else Some (ESP_OK, estimate, s1)
                       | None \<Rightarrow> Some (ESP_OK, estimate, s1))))"

text \<open>
  \<open>AdcHal::readFiltered\<close>. The return code of \<open>adc_cali_raw_to_voltage\<close> is not looked
  at here: whatever the call leaves in \<open>voltage_mv\<close> is the result.
\<close>

definition readFiltered ::
  "'f float_ops \<Rightarrow> adc_driver \<Rightarrow> adc_channel_t \<Rightarrow> 'f \<Rightarrow> ReadResult \<Rightarrow> 'f AdcHal
     \<Rightarrow> esp_err_t \<times> ReadResult \<times> 'f AdcHal" where
  "readFiltered F drv ch alpha result s =
     (if \<not> isRunning s then (ESP_ERR_INVALID_STATE, result, s)
      else if f_less F alpha (f_zero F) \<or> f_less F (f_one F) alpha
      then (ESP_ERR_INVALID_ARG, result, s)
      else
        case read drv ch result s of
          (ret, r, s1) \<Rightarrow>
            if ret \<noteq> ESP_OK then (ret, r, s1)
            else
              (case filter_values s1 ch of
                 Some previous \<Rightarrow>
                   let filtered =
                         f_add F (f_mul F alpha (f_of_int F (raw_value r)))
                                 (f_mul F (f_sub F (f_one F) alpha) previous);
                       s2 = s1\<lparr>filter_values := (filter_values s1)(ch \<mapsto> filtered)\<rparr>;
                       r1 = r\<lparr>raw_value := f_to_int F filtered\<rparr>;
                       estimate =
                         r1\<lparr>voltage_mv :=
                              (raw_value r1 * default_vref (adc_config s2)) div 4095\<rparr>
                   in (case calibration_handles s2 ch of
                         Some h \<Rightarrow>
                           if h \<noteq> 0 then
                             (ESP_OK,
                              r1\<lparr>voltage_mv :=
                                   snd (adc_cali_raw_to_voltage drv h (raw_value r1)
                                          (voltage_mv r1))\<rparr>,
                              s2)
                           else (ESP_OK, estimate, s2)
                       | None \<Rightarrow> (ESP_OK, estimate, s2))
               | None \<Rightarrow>
                   (ESP_OK, r,
                    s1\<lparr>filter_values := (filter_values s1)(ch \<mapsto> f_of_int F (raw_value r))\<rparr>)))"

definition convertToVoltage ::
  "adc_driver \<Rightarrow> adc_channel_t \<Rightarrow> 32 word \<Rightarrow> 32 word \<Rightarrow> 'f AdcHal \<Rightarrow> esp_err_t \<times> 32 word" where
  "convertToVoltage drv ch raw voltage s =
     (case calibration_handles s ch of
        Some h \<Rightarrow>
          if h \<noteq> 0 then adc_cali_raw_to_voltage drv h raw voltage
          else (ESP_OK, (raw * default_vref (adc_config s)) div 4095)
      | None \<Rightarrow> (ESP_OK, (raw * default_vref (adc_config s)) div 4095))"

subsection \<open>A concrete ADC set-up\<close>

text \<open>
  Unit 1 with the default reference of 1100 mV and channel 3 at 11 dB without
  calibration, on a converter that always delivers the code 2048 and accepts every
  channel it is asked to configure.
\<close>

definition bench_adc :: adc_driver where
  "bench_adc =
     \<lparr>adc_oneshot_new_unit = (\<lambda>u. ESP_OK),
      adc_oneshot_config_channel = (\<lambda>ch att bw. ESP_OK),
      adc_oneshot_read = (\<lambda>n ch. (ESP_OK, 2048)),
      adc_cali_create_scheme_curve_fitting = (\<lambda>u ch att bw. (ESP_OK, 1)),
      adc_cali_raw_to_voltage = (\<lambda>h raw v. (ESP_OK, raw))\<rparr>"

definition channel3 :: ChannelConfig where
  "channel3 = \<lparr>channel = 3, attenuation = DB_11, calibration_enable = False\<rparr>"

definition bench_running :: "rat AdcHal" where
  "bench_running =
     \<lparr>state = RUNNING, priority = NORMAL,
      adc_config = \<lparr>unit = UNIT_1, bit_width = WIDTH_DEFAULT, default_vref = 1100\<rparr>,
      adc_handle = True, channels = [(3, channel3)], calibration_handles = Map.empty,
      filter_values = Map.empty, adc_reads = 0\<rparr>"

definition blank_result :: ReadResult where
  "blank_result = \<lparr>raw_value = 0, voltage_mv = 0, calibrated = False\<rparr>"

text \<open>
  A converter that, like the platform's, rejects channel numbers outside \<open>0..9\<close>, and a
  configuration request for channel 12.
\<close>

definition strict_adc :: adc_driver where
  "strict_adc =
     bench_adc\<lparr>adc_oneshot_config_channel :=
                 (\<lambda>ch att bw. if 0 \<le> ch \<and> ch \<le> 9 then ESP_OK else ESP_ERR_INVALID_ARG)\<rparr>"

definition channel12 :: ChannelConfig where
  "channel12 = \<lparr>channel = 12, attenuation = DB_11, calibration_enable = False\<rparr>"

text \<open>
  An interpretation of the arithmetic extended by a not-a-number value, \<open>None\<close>, that
  behaves as the NaN of IEEE 754 does in C: every comparison with it is false and every
  arithmetic operation on it yields it. The operations on the other values are those of
  the given interpretation. Converting NaN to \<open>int\<close> has no defined result in C++;
  \<open>nan_code\<close> stands for whatever the conversion leaves.
\<close>

definition with_nan :: "'f float_ops \<Rightarrow> 32 word \<Rightarrow> 'f option float_ops" where
  "with_nan F nan_code =
     \<lparr>f_of_int = (\<lambda>w. Some (f_of_int F w)),
      f_to_int = (\<lambda>x. case x of None \<Rightarrow> nan_code | Some v \<Rightarrow> f_to_int F v),
      f_mul = (\<lambda>a b. case a of None \<Rightarrow> None
                 | Some x \<Rightarrow> (case b of None \<Rightarrow> None | Some y \<Rightarrow> Some (f_mul F x y))),
      f_add = (\<lambda>a b. case a of None \<Rightarrow> None
                 | Some x \<Rightarrow> (case b of None \<Rightarrow> None | Some y \<Rightarrow> Some (f_add F x y))),
      f_sub = (\<lambda>a b. case a of None \<Rightarrow> None
                 | Some x \<Rightarrow> (case b of None \<Rightarrow> None | Some y \<Rightarrow> Some (f_sub F x y))),
      f_less = (\<lambda>a b. case a of None \<Rightarrow> False
                 | Some x \<Rightarrow> (case b of None \<Rightarrow> False | Some y \<Rightarrow> f_less F x y)),
      f_zero = Some (f_zero F),
      f_one = Some (f_one F)\<rparr>"

text \<open>
  A running driver (unit 1, reference 1100 mV) whose channel 3 has been read through the
  filter before, so that it holds the filter state \<open>previous\<close>; the same with a
  calibration handle for channel 3; and a platform whose calibration conversion reports
  an error and leaves its out-parameter as it was.
\<close>

definition filter_bench :: "'f \<Rightarrow> 'f AdcHal" where
  "filter_bench previous =
     \<lparr>state = RUNNING, priority = NORMAL,
      adc_config = \<lparr>unit = UNIT_1, bit_width = WIDTH_DEFAULT, default_vref = 1100\<rparr>,
      adc_handle = True, channels = [(3, channel3)], calibration_handles = Map.empty,
      filter_values = [3 \<mapsto> previous], adc_reads = 0\<rparr>"

definition filter_bench_calibrated :: "'f \<Rightarrow> 'f AdcHal" where
  "filter_bench_calibrated previous =
     (filter_bench previous)\<lparr>calibration_handles := [3 \<mapsto> 1]\<rparr>"

definition failing_cali :: adc_driver where
  "failing_cali = bench_adc\<lparr>adc_cali_raw_to_voltage := (\<lambda>h raw v. (ESP_FAIL, v))\<rparr>"

text \<open>
  The exponential moving average as the specification writes it,
  \<open>alpha * raw + (1 - alpha) * previous\<close>, for comparison with \<open>readFiltered\<close>.
\<close>

definition spec_ema :: "'f float_ops \<Rightarrow> 'f \<Rightarrow> 32 word \<Rightarrow> 'f \<Rightarrow> 'f" where
  "spec_ema F alpha raw previous =
     f_add F (f_mul F alpha (f_of_int F raw)) (f_mul F (f_sub F (f_one F) alpha) previous)"

section \<open>I2C master driver (i2c\_hal.cpp)\<close>

type_synonym i2c_port_t = int
type_synonym gpio_num_t = int
type_synonym TickType_t = nat

definition GPIO_NUM_NC :: gpio_num_t where "GPIO_NUM_NC = - 1"

definition I2C_MASTER_WRITE :: "8 word" where "I2C_MASTER_WRITE = 0"
definition I2C_MASTER_READ :: "8 word" where "I2C_MASTER_READ = 1"

datatype Mode = MASTER | SLAVE

datatype i2c_ack_type_t = I2C_MASTER_ACK | I2C_MASTER_NACK | I2C_MASTER_LAST_NACK

record I2cConfig =
  port :: i2c_port_t
  mode :: Mode
  sda_pin :: gpio_num_t
  scl_pin :: gpio_num_t
  frequency :: "32 word"
  sda_pullup_enable :: bool
  scl_pullup_enable :: bool
  slave_address :: "8 word"

text \<open>
  A command link is the list of the commands queued on it, one constructor for each
  builder function of the platform's I2C driver; the second argument of the write
  commands is the \<open>ack_en\<close> flag.
\<close>

datatype i2c_cmd =
    master_start
  | master_write_byte "8 word" bool
  | master_write "8 word list" bool
  | master_read nat i2c_ack_type_t
  | master_read_byte i2c_ack_type_t
  | master_stop

type_synonym i2c_transaction = "i2c_port_t \<times> i2c_cmd list \<times> TickType_t"

text \<open>
  The platform's I2C driver and the devices behind it are parameters of the model.
  \<open>i2c_master_cmd_begin\<close> receives the transactions executed before it (so a device may
  have state) and yields the return code and the bytes the bus delivered to the read
  commands. \<open>i2c_cmd_append\<close> is the return code of a builder call that queues a command
  on a link holding the given commands.
\<close>

record i2c_driver =
  i2c_cmd_link_create :: "i2c_transaction list \<Rightarrow> bool"
  i2c_cmd_append :: "i2c_cmd list \<Rightarrow> i2c_cmd \<Rightarrow> esp_err_t"
  i2c_master_cmd_begin ::
    "i2c_transaction list \<Rightarrow> i2c_port_t \<Rightarrow> i2c_cmd list \<Rightarrow> TickType_t
       \<Rightarrow> esp_err_t \<times> 8 word list"
  i2c_param_config :: "I2cConfig \<Rightarrow> esp_err_t"
  i2c_driver_install :: "i2c_port_t \<Rightarrow> Mode \<Rightarrow> esp_err_t"
  i2c_driver_delete :: "i2c_port_t \<Rightarrow> esp_err_t"
  configTICK_RATE_HZ :: nat

definition pdMS_TO_TICKS :: "i2c_driver \<Rightarrow> nat \<Rightarrow> TickType_t" where
  "pdMS_TO_TICKS drv ms = (ms * configTICK_RATE_HZ drv) div 1000"

text \<open>
  The object; \<open>bus_log\<close> is the list of transactions handed to
  \<open>i2c_master_cmd_begin\<close> so far, oldest first: the bus activity.
\<close>

record I2cHal = HalBase +
  i2c_config :: I2cConfig
  driver_installed :: bool
  bus_log :: "i2c_transaction list"

definition I2cHal_new :: "i2c_port_t \<Rightarrow> I2cHal" where
  "I2cHal_new p =
     \<lparr>state = UNINITIALIZED, priority = NORMAL,
      i2c_config = \<lparr>port = p, mode = MASTER, sda_pin = GPIO_NUM_NC, scl_pin = GPIO_NUM_NC,
                    frequency = 100000, sda_pullup_enable = True, scl_pullup_enable = True,
                    slave_address = 0\<rparr>,
      driver_installed = False, bus_log = []\<rparr>"

definition i2c_initialize :: "I2cHal \<Rightarrow> esp_err_t \<times> I2cHal" where
  "i2c_initialize s =
     (let s1 = setState INITIALIZING s
      in if sda_pin (i2c_config s1) = GPIO_NUM_NC \<or> scl_pin (i2c_config s1) = GPIO_NUM_NC
         then (ESP_ERR_INVALID_ARG, setState ERROR s1)
         else (ESP_OK, setState INITIALIZED s1))"

definition i2c_configure :: "i2c_driver \<Rightarrow> I2cHal \<Rightarrow> esp_err_t \<times> I2cHal" where
  "i2c_configure drv s =
     (if \<not> isInitialized s then (ESP_ERR_INVALID_STATE, s)
      else
        let s1 = (if driver_installed s then s\<lparr>driver_installed := False\<rparr> else s);
            ret = i2c_param_config drv (i2c_config s1)
        in if ret \<noteq> ESP_OK then (ret, setState ERROR s1)
           else
             let ret2 = i2c_driver_install drv (port (i2c_config s1)) (mode (i2c_config s1))
             in if ret2 \<noteq> ESP_OK then (ret2, setState ERROR s1)
                else (ESP_OK, s1\<lparr>driver_installed := True\<rparr>))"

definition i2c_start :: "i2c_driver \<Rightarrow> I2cHal \<Rightarrow> esp_err_t \<times> I2cHal" where
  "i2c_start drv s =
     (if \<not> isInitialized s then (ESP_ERR_INVALID_STATE, s)
      else if \<not> driver_installed s then
        (case i2c_configure drv s of
           (ret, s1) \<Rightarrow> if ret \<noteq> ESP_OK then (ret, s1) else (ESP_OK, setState RUNNING s1))
      else (ESP_OK, setState RUNNING s))"

definition i2c_stop :: "I2cHal \<Rightarrow> esp_err_t \<times> I2cHal" where
  "i2c_stop s = (ESP_OK, setState SUSPENDED s)"

definition i2c_reset :: "I2cHal \<Rightarrow> esp_err_t \<times> I2cHal" where
  "i2c_reset s =
     (let s1 = (if driver_installed s then s\<lparr>driver_installed := False\<rparr> else s)
      in (ESP_OK, setState INITIALIZED s1))"

text \<open>
  Queuing commands: every builder call appends its command and its return code is
  or-ed into \<open>ret\<close> (the first call assigns \<open>ret\<close>, which is the same as or-ing into
  \<open>ESP_OK = 0\<close>).
\<close>

definition cmd_add :: "i2c_driver \<Rightarrow> esp_err_t \<times> i2c_cmd list \<Rightarrow> i2c_cmd \<Rightarrow> esp_err_t \<times> i2c_cmd list" where
  "cmd_add drv acc c = (fst acc OR i2c_cmd_append drv (snd acc) c, snd acc @ [c])"

definition build_cmds :: "i2c_driver \<Rightarrow> i2c_cmd list \<Rightarrow> esp_err_t \<times> i2c_cmd list" where
  "build_cmds drv cs = foldl (cmd_add drv) (ESP_OK, []) cs"

text \<open>\<open>std::vector::resize\<close>, and the receive buffer after the bus delivered \<open>rx\<close>.\<close>

definition resize :: "nat \<Rightarrow> 8 word list \<Rightarrow> 8 word list" where
  "resize n xs = take n xs @ replicate (n - length xs) 0"

definition store_rx :: "8 word list \<Rightarrow> 8 word list \<Rightarrow> 8 word list" where
  "store_rx rx buf = take (length buf) (rx @ drop (length rx) buf)"

text \<open>
  The command sequences the four transfer functions and the presence probe queue, in
  the order of their builder calls. The address byte is computed in \<open>int\<close> and passed
  as \<open>uint8_t\<close>: an 8-bit shift and or.
\<close>

definition write_cmds :: "8 word \<Rightarrow> 8 word list \<Rightarrow> i2c_cmd list" where
  "write_cmds device_address data =
     [master_start,
      master_write_byte (push_bit 1 device_address OR I2C_MASTER_WRITE) True,
      master_write data True,
      master_stop]"

definition read_cmds :: "8 word \<Rightarrow> nat \<Rightarrow> i2c_cmd list" where
  "read_cmds device_address len =
     [master_start,
      master_write_byte (push_bit 1 device_address OR I2C_MASTER_READ) True]
     @ (if len > 1 then [master_read (len - 1) I2C_MASTER_ACK] else [])
     @ [master_read_byte I2C_MASTER_NACK,
        master_stop]"

definition writeRegister_cmds :: "8 word \<Rightarrow> 8 word \<Rightarrow> 8 word list \<Rightarrow> i2c_cmd list" where
  "writeRegister_cmds device_address register_address data =
     [master_start,
      master_write_byte (push_bit 1 device_address OR I2C_MASTER_WRITE) True,
      master_write_byte register_address True]
     @ (if data \<noteq> [] then [master_write data True] else [])
     @ [master_stop]"

definition readRegister_cmds :: "8 word \<Rightarrow> 8 word \<Rightarrow> nat \<Rightarrow> i2c_cmd list" where
  "readRegister_cmds device_address register_address len =
     [master_start,
      master_write_byte (push_bit 1 device_address OR I2C_MASTER_WRITE) True,
      master_write_byte register_address True,
      master_start,
      master_write_byte (push_bit 1 device_address OR I2C_MASTER_READ) True]
     @ (if len > 1 then [master_read (len - 1) I2C_MASTER_ACK] else [])
     @ [master_read_byte I2C_MASTER_NACK,
        master_stop]"

definition deviceExists_cmds :: "8 word \<Rightarrow> i2c_cmd list" where
  "deviceExists_cmds device_address =
     [master_start,
      master_write_byte (push_bit 1 device_address OR I2C_MASTER_WRITE) True,
      master_stop]"

text \<open>Executing a queued link: one call of \<open>i2c_master_cmd_begin\<close>, one log entry.\<close>

definition cmd_begin ::
  "i2c_driver \<Rightarrow> i2c_cmd list \<Rightarrow> TickType_t \<Rightarrow> I2cHal \<Rightarrow> (esp_err_t \<times> 8 word list) \<times> I2cHal" where
  "cmd_begin drv cmd timeout s =
     (i2c_master_cmd_begin drv (bus_log s) (port (i2c_config s)) cmd timeout,
      s\<lparr>bus_log := bus_log s @ [(port (i2c_config s), cmd, timeout)]\<rparr>)"

definition i2c_write ::
  "i2c_driver \<Rightarrow> 8 word \<Rightarrow> 8 word list \<Rightarrow> TickType_t \<Rightarrow> I2cHal \<Rightarrow> esp_err_t \<times> I2cHal" where
  "i2c_write drv device_address data timeout s =
     (if \<not> isRunning s then (ESP_ERR_INVALID_STATE, s)
      else if data = [] then (ESP_ERR_INVALID_ARG, s)
      else if \<not> i2c_cmd_link_create drv (bus_log s) then (ESP_ERR_NO_MEM, s)
      else
        case build_cmds drv (write_cmds device_address data) of
          (ret, cmd) \<Rightarrow>
            if ret \<noteq> ESP_OK then (ret, s)
            else
              (case cmd_begin drv cmd timeout s of
                 ((ret2, rx), s1) \<Rightarrow> if ret2 \<noteq> ESP_OK then (ret2, s1) else (ESP_OK, s1)))"

definition i2c_read ::
  "i2c_driver \<Rightarrow> 8 word \<Rightarrow> 8 word list \<Rightarrow> nat \<Rightarrow> TickType_t \<Rightarrow> I2cHal
     \<Rightarrow> esp_err_t \<times> 8 word list \<times> I2cHal" where
  "i2c_read drv device_address data len timeout s =
     (if \<not> isRunning s then (ESP_ERR_INVALID_STATE, data, s)
      else if len = 0 then (ESP_ERR_INVALID_ARG, data, s)
      else
        let data1 = resize len data
        in if \<not> i2c_cmd_link_create drv (bus_log s) then (ESP_ERR_NO_MEM, data1, s)
           else
             case build_cmds drv (read_cmds device_address len) of
               (ret, cmd) \<Rightarrow>
                 if ret \<noteq> ESP_OK then (ret, data1, s)
                 else
                   (case cmd_begin drv cmd timeout s of
                      ((ret2, rx), s1) \<Rightarrow>
                        if ret2 \<noteq> ESP_OK then (ret2, [], s1)
                        else (ESP_OK, store_rx rx data1, s1)))"

definition writeRegister ::
  "i2c_driver \<Rightarrow> 8 word \<Rightarrow> 8 word \<Rightarrow> 8 word list \<Rightarrow> TickType_t \<Rightarrow> I2cHal
     \<Rightarrow> esp_err_t \<times> I2cHal" where
  "writeRegister drv device_address register_address data timeout s =
     (if \<not> isRunning s then (ESP_ERR_INVALID_STATE, s)
      else if \<not> i2c_cmd_link_create drv (bus_log s) then (ESP_ERR_NO_MEM, s)
      else
        case build_cmds drv (writeRegister_cmds device_address register_address data) of
          (ret, cmd) \<Rightarrow>
            if ret \<noteq> ESP_OK then (ret, s)
            else
              (case cmd_begin drv cmd timeout s of
                 ((ret2, rx), s1) \<Rightarrow> if ret2 \<noteq> ESP_OK then (ret2, s1) else (ESP_OK, s1)))"

definition readRegister ::
  "i2c_driver \<Rightarrow> 8 word \<Rightarrow> 8 word \<Rightarrow> 8 word list \<Rightarrow> nat \<Rightarrow> TickType_t \<Rightarrow> I2cHal
     \<Rightarrow> esp_err_t \<times> 8 word list \<times> I2cHal" where
  "readRegister drv device_address register_address data len timeout s =
     (if \<not> isRunning s then (ESP_ERR_INVALID_STATE, data, s)
      else if len = 0 then (ESP_ERR_INVALID_ARG, data, s)
      else
        let data1 = resize len data
        in if \<not> i2c_cmd_link_create drv (bus_log s) then (ESP_ERR_NO_MEM, data1, s)
           else
             case build_cmds drv (readRegister_cmds device_address register_address len) of
               (ret, cmd) \<Rightarrow>
                 if ret \<noteq> ESP_OK then (ret, data1, s)
                 else
                   (case cmd_begin drv cmd timeout s of
                      ((ret2, rx), s1) \<Rightarrow>
                        if ret2 \<noteq> ESP_OK then (ret2, [], s1)
                        else (ESP_OK, store_rx rx data1, s1)))"

definition deviceExists ::
  "i2c_driver \<Rightarrow> 8 word \<Rightarrow> TickType_t \<Rightarrow> I2cHal \<Rightarrow> bool \<times> I2cHal" where
  "deviceExists drv device_address timeout s =
     (if \<not> isRunning s then (False, s)
      else if \<not> i2c_cmd_link_create drv (bus_log s) then (False, s)
      else
        case build_cmds drv (deviceExists_cmds device_address) of
          (ret, cmd) \<Rightarrow>
            if ret \<noteq> ESP_OK then (False, s)
            else
              (case cmd_begin drv cmd timeout s of
                 ((ret2, rx), s1) \<Rightarrow> (ret2 = ESP_OK, s1)))"

text \<open>
  The loop of \<open>scanBus\<close>: \<open>for (uint8_t addr = 0x08; addr <= 0x77; addr++)\<close>.
\<close>

function scan_from ::
  "i2c_driver \<Rightarrow> 8 word \<Rightarrow> 8 word list \<Rightarrow> I2cHal \<Rightarrow> 8 word list \<times> I2cHal" where
  "scan_from drv addr found_devices s =
     (if addr \<le> 0x77 then
        (case deviceExists drv addr (pdMS_TO_TICKS drv 100) s of
           (present, s1) \<Rightarrow>
             scan_from drv (addr + 1)
               (if present then found_devices @ [addr] else found_devices) s1)
      else (found_devices, s))"
  by pat_completeness auto
termination
proof (relation "measure (\<lambda>(drv, addr, found_devices, s). 0x78 - unat addr)")
  show "wf (measure (\<lambda>(drv, addr, found_devices, s). 0x78 - unat addr))"
    by simp
next
  fix drv :: i2c_driver and addr :: "8 word" and found_devices :: "8 word list"
    and s :: I2cHal and x :: "bool \<times> I2cHal" and present :: bool and s1 :: I2cHal
  assume le: "addr \<le> 0x77"
  then have u: "unat addr \<le> 0x77"
    by (simp add: word_le_nat_alt)
  then have "unat (addr + 1) = unat addr + 1"
    by (simp add: unat_word_ariths)
  with u show "((drv, addr + 1, if present then found_devices @ [addr] else found_devices, s1),
                (drv, addr, found_devices, s))
               \<in> measure (\<lambda>(drv, addr, found_devices, s). 0x78 - unat addr)"
    by simp
qed

declare scan_from.simps [simp del]

definition scanBus :: "i2c_driver \<Rightarrow> 8 word list \<Rightarrow> I2cHal \<Rightarrow> esp_err_t \<times> 8 word list \<times> I2cHal" where
  "scanBus drv found_devices s =
     (if \<not> isRunning s then (ESP_ERR_INVALID_STATE, found_devices, s)
      else case scan_from drv 0x08 [] s of (found, s1) \<Rightarrow> (ESP_OK, found, s1))"

text \<open>
  What a queued command puts on the wire, following the platform driver's documentation
  of the builder functions: a written byte with its \<open>ack_en\<close> flag, a received byte
  answered with ACK or with NACK. It is used to state the framing of a transaction.
\<close>

datatype bus_event = START | SEND "8 word" bool | RECV_ACK | RECV_NACK | STOP

fun bus_frame :: "i2c_cmd \<Rightarrow> bus_event list" where
  "bus_frame master_start = [START]"
| "bus_frame (master_write_byte b ack_en) = [SEND b ack_en]"
| "bus_frame (master_write bs ack_en) = map (\<lambda>b. SEND b ack_en) bs"
| "bus_frame (master_read n I2C_MASTER_ACK) = replicate n RECV_ACK"
| "bus_frame (master_read n I2C_MASTER_NACK) = replicate n RECV_NACK"
| "bus_frame (master_read n I2C_MASTER_LAST_NACK) =
     replicate (n - 1) RECV_ACK @ (if n = 0 then [] else [RECV_NACK])"
| "bus_frame (master_read_byte I2C_MASTER_ACK) = [RECV_ACK]"
| "bus_frame (master_read_byte I2C_MASTER_NACK) = [RECV_NACK]"
| "bus_frame (master_read_byte I2C_MASTER_LAST_NACK) = [RECV_NACK]"
| "bus_frame master_stop = [STOP]"

text \<open>The addresses of a scan, \<open>0x08\<close> to \<open>0x77\<close>, in ascending order.\<close>

definition scan_range :: "8 word list" where
  "scan_range = map of_nat [0x08 ..< 0x78]"

subsection \<open>A concrete I2C bus\<close>

text \<open>
  A bus on port 0 at a tick rate of 1000 Hz on which only the devices at \<open>0x23\<close> and
  \<open>0x68\<close> answer an address byte; reading from any other address fails after one byte.
\<close>

definition two_device_bus :: i2c_driver where
  "two_device_bus =
     \<lparr>i2c_cmd_link_create = (\<lambda>h. True),
      i2c_cmd_append = (\<lambda>cs c. ESP_OK),
      i2c_master_cmd_begin =
        (\<lambda>h p cmd t.
           case cmd of
             master_start # master_write_byte b ack_en # rest \<Rightarrow>
               if b = 0x46 \<or> b = 0x47 \<or> b = 0xD0 \<or> b = 0xD1
               then (ESP_OK, [0x11, 0x22]) else (ESP_FAIL, [0xFF])
           | _ \<Rightarrow> (ESP_FAIL, [])),
      i2c_param_config = (\<lambda>c. ESP_OK),
      i2c_driver_install = (\<lambda>p m. ESP_OK),
      i2c_driver_delete = (\<lambda>p. ESP_OK),
      configTICK_RATE_HZ = 1000\<rparr>"

definition i2c_running :: I2cHal where
  "i2c_running =
     \<lparr>state = RUNNING, priority = NORMAL,
      i2c_config = \<lparr>port = 0, mode = MASTER, sda_pin = 3, scl_pin = 4,
                    frequency = 400000, sda_pullup_enable = True, scl_pullup_enable = True,
                    slave_address = 0\<rparr>,
      driver_installed = True, bus_log = []\<rparr>"

text \<open>
  The probe transaction of a scan for one address, and whether the device at that
  address acknowledges it: the transaction is executed after the probes of all lower
  addresses of the scan, and is acknowledged when its execution returns \<open>ESP_OK\<close>.
\<close>

definition probe :: "i2c_driver \<Rightarrow> I2cHal \<Rightarrow> 8 word \<Rightarrow> i2c_transaction" where
  "probe drv s a = (port (i2c_config s), deviceExists_cmds a, pdMS_TO_TICKS drv 100)"

definition acknowledges :: "i2c_driver \<Rightarrow> I2cHal \<Rightarrow> 8 word \<Rightarrow> bool" where
  "acknowledges drv s a =
     (fst (i2c_master_cmd_begin drv
             (bus_log s @ map (probe drv s) (map of_nat [0x08 ..< unat a]))
             (port (i2c_config s)) (deviceExists_cmds a) (pdMS_TO_TICKS drv 100))
      = ESP_OK)"

section \<open>Timer and interrupt driver (interrupt\_hal.cpp)\<close>

datatype IntrPriority = LEVEL_1 | LEVEL_2 | LEVEL_3 | LEVEL_4 | LEVEL_5 | LEVEL_NMI

record TimerConfig =
  period_us :: "64 word"
  auto_reload :: bool
  timer_priority :: IntrPriority
  run_in_isr :: bool

record SourceConfig =
  source :: int
  source_priority :: IntrPriority
  flags :: "32 word"

record Statistics =
  total_count :: "64 word"
  missed_count :: "64 word"
  max_latency_us :: "64 word"
  avg_latency_us :: "64 word"

definition Statistics_zero :: Statistics where
  "Statistics_zero =
     \<lparr>total_count = 0, missed_count = 0, max_latency_us = 0, avg_latency_us = 0\<rparr>"

text \<open>
  A callback (\<open>std::function<void(void)>\<close>) acts on the client's data, of type \<open>'w\<close>;
  \<open>None\<close> is the empty function object. Handles are the values the platform returned.
\<close>

record 'w TimerInfo =
  timer_handle :: nat
  timer_config :: TimerConfig
  callback :: "('w \<Rightarrow> 'w) option"
  timer_stats :: Statistics

record 'w InterruptInfo =
  intr_handle :: nat
  intr_config :: SourceConfig
  handler :: "('w \<Rightarrow> 'w) option"
  intr_stats :: Statistics

record 'w InterruptHal = HalBase +
  timers :: "32 word \<rightharpoonup> 'w TimerInfo"
  interrupts :: "32 word \<rightharpoonup> 'w InterruptInfo"

text \<open>The platform's timer and interrupt allocation services, as parameters.\<close>

record intr_driver =
  esp_timer_create :: "32 word \<Rightarrow> esp_err_t \<times> nat"
  esp_timer_delete :: "nat \<Rightarrow> esp_err_t"
  esp_intr_alloc :: "int \<Rightarrow> 32 word \<Rightarrow> 32 word \<Rightarrow> esp_err_t \<times> nat"
  esp_intr_free :: "nat \<Rightarrow> esp_err_t"

definition InterruptHal_new :: "'w InterruptHal" where
  "InterruptHal_new =
     \<lparr>state = UNINITIALIZED, priority = NORMAL, timers = Map.empty, interrupts = Map.empty\<rparr>"

definition intr_initialize :: "'w InterruptHal \<Rightarrow> esp_err_t \<times> 'w InterruptHal" where
  "intr_initialize s = (ESP_OK, setState INITIALIZED (setState INITIALIZING s))"

definition intr_configure :: "'w InterruptHal \<Rightarrow> esp_err_t \<times> 'w InterruptHal" where
  "intr_configure s = (if \<not> isInitialized s then (ESP_ERR_INVALID_STATE, s) else (ESP_OK, s))"

definition intr_start :: "'w InterruptHal \<Rightarrow> esp_err_t \<times> 'w InterruptHal" where
  "intr_start s =
     (if \<not> isInitialized s then (ESP_ERR_INVALID_STATE, s) else (ESP_OK, setState RUNNING s))"

definition intr_stop :: "'w InterruptHal \<Rightarrow> esp_err_t \<times> 'w InterruptHal" where
  "intr_stop s = (ESP_OK, setState SUSPENDED s)"

definition intr_reset :: "'w InterruptHal \<Rightarrow> esp_err_t \<times> 'w InterruptHal" where
  "intr_reset s =
     (ESP_OK,
      setState INITIALIZED
        (s\<lparr>timers := (\<lambda>k. map_option (\<lambda>ti. ti\<lparr>timer_stats := Statistics_zero\<rparr>) (timers s k)),
           interrupts :=
             (\<lambda>k. map_option (\<lambda>ii. ii\<lparr>intr_stats := Statistics_zero\<rparr>) (interrupts s k))\<rparr>))"

definition createHighResTimer ::
  "intr_driver \<Rightarrow> 32 word \<Rightarrow> TimerConfig \<Rightarrow> ('w \<Rightarrow> 'w) option \<Rightarrow> 'w InterruptHal
     \<Rightarrow> esp_err_t \<times> 'w InterruptHal" where
  "createHighResTimer drv timer_id config cb s =
     (if \<not> isRunning s then (ESP_ERR_INVALID_STATE, s)
      else
        case timers s timer_id of
          Some existing \<Rightarrow> (ESP_ERR_INVALID_ARG, s)
        | None \<Rightarrow>
            let (ret, h) = esp_timer_create drv timer_id
            in if ret \<noteq> ESP_OK then (ret, s)
               else
                 (ESP_OK,
                  s\<lparr>timers := (timers s)(timer_id \<mapsto>
                       \<lparr>timer_handle = h, timer_config = config, callback = cb,
                        timer_stats = Statistics_zero\<rparr>)\<rparr>))"

definition deleteTimer ::
  "intr_driver \<Rightarrow> 32 word \<Rightarrow> 'w InterruptHal \<Rightarrow> esp_err_t \<times> 'w InterruptHal" where
  "deleteTimer drv timer_id s =
     (case timers s timer_id of
        None \<Rightarrow> (ESP_ERR_NOT_FOUND, s)
      | Some ti \<Rightarrow>
          let ret = esp_timer_delete drv (timer_handle ti)
          in if ret \<noteq> ESP_OK then (ret, s)
             else (ESP_OK, s\<lparr>timers := (timers s)(timer_id := None)\<rparr>))"

definition registerInterrupt ::
  "intr_driver \<Rightarrow> 32 word \<Rightarrow> SourceConfig \<Rightarrow> ('w \<Rightarrow> 'w) option \<Rightarrow> 'w InterruptHal
     \<Rightarrow> esp_err_t \<times> 'w InterruptHal" where
  "registerInterrupt drv interrupt_id config hdl s =
     (if \<not> isRunning s then (ESP_ERR_INVALID_STATE, s)
      else
        case interrupts s interrupt_id of
          Some existing \<Rightarrow> (ESP_ERR_INVALID_ARG, s)
        | None \<Rightarrow>
            let (ret, h) = esp_intr_alloc drv (source config) (flags config) interrupt_id
            in if ret \<noteq> ESP_OK then (ret, s)
               else
                 (ESP_OK,
                  s\<lparr>interrupts := (interrupts s)(interrupt_id \<mapsto>
                       \<lparr>intr_handle = h, intr_config = config, handler = hdl,
                        intr_stats = Statistics_zero\<rparr>)\<rparr>))"

definition unregisterInterrupt ::
  "intr_driver \<Rightarrow> 32 word \<Rightarrow> 'w InterruptHal \<Rightarrow> esp_err_t \<times> 'w InterruptHal" where
  "unregisterInterrupt drv interrupt_id s =
     (case interrupts s interrupt_id of
        None \<Rightarrow> (ESP_ERR_NOT_FOUND, s)
      | Some ii \<Rightarrow>
          let ret = esp_intr_free drv (intr_handle ii)
          in if ret \<noteq> ESP_OK then (ret, s)
             else (ESP_OK, s\<lparr>interrupts := (interrupts s)(interrupt_id := None)\<rparr>))"

text \<open>
  The two trampolines the platform calls; \<open>arg\<close> is the id that was registered. Each
  starts with \<open>static InterruptHal* instance = nullptr;\<close>, a function-local static that
  nothing assigns, and returns when it is null. The pointer is modelled as an option
  (\<open>None\<close> is \<open>nullptr\<close>; a non-null pointer would refer to the driver object of the
  pair). \<open>timer_dispatch\<close> and \<open>interrupt_dispatch\<close> are the statements after that test:
  look the id up, increment \<open>total_count\<close>, call the callback if it is not empty.
\<close>

definition timer_dispatch :: "32 word \<Rightarrow> 'w InterruptHal \<times> 'w \<Rightarrow> 'w InterruptHal \<times> 'w" where
  "timer_dispatch timer_id \<sigma> =
     (case timers (fst \<sigma>) timer_id of
        None \<Rightarrow> \<sigma>
      | Some ti \<Rightarrow>
          let ti1 = ti\<lparr>timer_stats :=
                        (timer_stats ti)\<lparr>total_count := total_count (timer_stats ti) + 1\<rparr>\<rparr>;
              hal1 = (fst \<sigma>)\<lparr>timers := (timers (fst \<sigma>))(timer_id \<mapsto> ti1)\<rparr>
          in (case callback ti1 of
                None \<Rightarrow> (hal1, snd \<sigma>)
              | Some cb \<Rightarrow> (hal1, cb (snd \<sigma>))))"

definition espTimerCallback :: "32 word \<Rightarrow> 'w InterruptHal \<times> 'w \<Rightarrow> 'w InterruptHal \<times> 'w" where
  "espTimerCallback arg \<sigma> =
     (let timer_id = arg;
          inst = (None :: unit option)
      in case inst of
           None \<Rightarrow> \<sigma>
         | Some this \<Rightarrow> timer_dispatch timer_id \<sigma>)"

definition interrupt_dispatch :: "32 word \<Rightarrow> 'w InterruptHal \<times> 'w \<Rightarrow> 'w InterruptHal \<times> 'w" where
  "interrupt_dispatch interrupt_id \<sigma> =
     (case interrupts (fst \<sigma>) interrupt_id of
        None \<Rightarrow> \<sigma>
      | Some ii \<Rightarrow>
          let ii1 = ii\<lparr>intr_stats :=
                        (intr_stats ii)\<lparr>total_count := total_count (intr_stats ii) + 1\<rparr>\<rparr>;
              hal1 = (fst \<sigma>)\<lparr>interrupts := (interrupts (fst \<sigma>))(interrupt_id \<mapsto> ii1)\<rparr>
          in (case handler ii1 of
                None \<Rightarrow> (hal1, snd \<sigma>)
              | Some hdl \<Rightarrow> (hal1, hdl (snd \<sigma>))))"

definition interruptHandlerWrapper ::
  "32 word \<Rightarrow> 'w InterruptHal \<times> 'w \<Rightarrow> 'w InterruptHal \<times> 'w" where
  "interruptHandlerWrapper arg \<sigma> =
     (let interrupt_id = arg;
          inst = (None :: unit option)
      in case inst of
           None \<Rightarrow> \<sigma>
         | Some this \<Rightarrow> interrupt_dispatch interrupt_id \<sigma>)"

section \<open>GPIO driver (gpio\_hal.cpp): interrupt callbacks\<close>

datatype Direction = INPUT | OUTPUT | INPUT_OUTPUT
datatype Pull = NONE | PULLUP | PULLDOWN | PULLUP_PULLDOWN
datatype InterruptType = DISABLE | POSEDGE | NEGEDGE | ANYEDGE | LOW_LEVEL | HIGH_LEVEL

record GpioConfig =
  pin :: gpio_num_t
  direction :: Direction
  pull :: Pull
  interrupt :: InterruptType
  invert :: bool

record gpio_driver =
  gpio_is_valid_gpio :: "gpio_num_t \<Rightarrow> bool"
  gpio_install_isr_service :: esp_err_t
  gpio_set_intr_type :: "gpio_num_t \<Rightarrow> InterruptType \<Rightarrow> esp_err_t"
  gpio_isr_handler_add :: "gpio_num_t \<Rightarrow> esp_err_t"

text \<open>
  The static members (\<open>pin_map_\<close> maps a pin to the address of the instance that owns
  it) and the object; a callback is a value of type \<open>'cb\<close>.
\<close>

record GpioStatics =
  pin_map :: "gpio_num_t \<rightharpoonup> nat"
  isr_service_installed :: bool

record 'cb GpioHal = HalBase +
  pin_configs :: "gpio_num_t \<rightharpoonup> GpioConfig"
  callbacks :: "gpio_num_t \<rightharpoonup> 'cb"

definition isValidPin :: "gpio_driver \<Rightarrow> gpio_num_t \<Rightarrow> bool" where
  "isValidPin drv p = gpio_is_valid_gpio drv p"

definition installIsrService :: "gpio_driver \<Rightarrow> GpioStatics \<Rightarrow> esp_err_t \<times> GpioStatics" where
  "installIsrService drv st =
     (if isr_service_installed st then (ESP_OK, st)
      else
        let ret = gpio_install_isr_service drv
        in if ret \<noteq> ESP_OK then (ret, st)
           else (ESP_OK, st\<lparr>isr_service_installed := True\<rparr>))"

text \<open>\<open>GpioHal::setInterrupt\<close> called on the instance at address \<open>this\<close>.\<close>

definition setInterrupt ::
  "gpio_driver \<Rightarrow> nat \<Rightarrow> gpio_num_t \<Rightarrow> InterruptType \<Rightarrow> 'cb \<Rightarrow> GpioStatics \<times> 'cb GpioHal
     \<Rightarrow> esp_err_t \<times> GpioStatics \<times> 'cb GpioHal" where
  "setInterrupt drv this p type cb \<sigma> =
     (let st = fst \<sigma>; s = snd \<sigma>
      in if \<not> isValidPin drv p then (ESP_ERR_INVALID_ARG, st, s)
         else
           let (iret, st1) =
                 (if \<not> isr_service_installed st then installIsrService drv st else (ESP_OK, st))
           in if iret \<noteq> ESP_OK then (iret, st1, s)
              else
                let ret = gpio_set_intr_type drv p type
                in if ret \<noteq> ESP_OK then (ret, st1, s)
                   else
                     let s1 = s\<lparr>callbacks := (callbacks s)(p \<mapsto> cb)\<rparr>;
                         st2 = st1\<lparr>pin_map := (pin_map st1)(p \<mapsto> this)\<rparr>;
                         ret2 = gpio_isr_handler_add drv p
                     in if ret2 \<noteq> ESP_OK
                        then (ret2, st2, s1\<lparr>callbacks := (callbacks s1)(p := None)\<rparr>)
                        else
                          (ESP_OK, st2,
                           case pin_configs s1 p of
                             Some c \<Rightarrow> s1\<lparr>pin_configs := (pin_configs s1)(p \<mapsto> c\<lparr>interrupt := type\<rparr>)\<rparr>
                           | None \<Rightarrow> s1))"

definition disableInterrupt :: "gpio_num_t \<Rightarrow> 'cb GpioHal \<Rightarrow> esp_err_t \<times> 'cb GpioHal" where
  "disableInterrupt p s =
     (let s1 = s\<lparr>callbacks := (callbacks s)(p := None)\<rparr>
      in (ESP_OK,
          case pin_configs s1 p of
            Some c \<Rightarrow> s1\<lparr>pin_configs := (pin_configs s1)(p \<mapsto> c\<lparr>interrupt := DISABLE\<rparr>)\<rparr>
          | None \<Rightarrow> s1))"

subsection \<open>Concrete timer, interrupt and pin set-ups\<close>

text \<open>
  A platform on which every allocation succeeds; a running interrupt driver holding
  timer 7 whose callback increments a counter, and interrupt 5 whose handler adds ten.
\<close>

definition easy_intr :: intr_driver where
  "easy_intr =
     \<lparr>esp_timer_create = (\<lambda>arg. (ESP_OK, 100)),
      esp_timer_delete = (\<lambda>h. ESP_OK),
      esp_intr_alloc = (\<lambda>src fl arg. (ESP_OK, 200)),
      esp_intr_free = (\<lambda>h. ESP_OK)\<rparr>"

definition tick_config :: TimerConfig where
  "tick_config =
     \<lparr>period_us = 1000, auto_reload = True, timer_priority = LEVEL_1, run_in_isr = False\<rparr>"

definition line_config :: SourceConfig where
  "line_config = \<lparr>source = 22, source_priority = LEVEL_1, flags = 0\<rparr>"

definition intr_bench :: "nat InterruptHal" where
  "intr_bench =
     \<lparr>state = RUNNING, priority = NORMAL,
      timers = [7 \<mapsto> \<lparr>timer_handle = 100, timer_config = tick_config,
                       callback = Some Suc, timer_stats = Statistics_zero\<rparr>],
      interrupts = [5 \<mapsto> \<lparr>intr_handle = 200, intr_config = line_config,
                           handler = Some (\<lambda>w. w + 10), intr_stats = Statistics_zero\<rparr>]\<rparr>"

text \<open>A GPIO platform that accepts every request, and a driver object without pins.\<close>

definition easy_gpio :: gpio_driver where
  "easy_gpio =
     \<lparr>gpio_is_valid_gpio = (\<lambda>p. 0 \<le> p \<and> p \<le> 48),
      gpio_install_isr_service = ESP_OK,
      gpio_set_intr_type = (\<lambda>p t. ESP_OK),
      gpio_isr_handler_add = (\<lambda>p. ESP_OK)\<rparr>"

definition gpio_fresh :: "GpioStatics \<times> string GpioHal" where
  "gpio_fresh =
     (\<lparr>pin_map = Map.empty, isr_service_installed = True\<rparr>,
      \<lparr>state = RUNNING, priority = NORMAL, pin_configs = Map.empty, callbacks = Map.empty\<rparr>)"

subsection \<open>Drivers in the Error state\<close>

definition adc_failed :: "rat AdcHal" where
  "adc_failed = bench_running\<lparr>state := ERROR\<rparr>"

definition i2c_failed :: I2cHal where
  "i2c_failed = i2c_running\<lparr>state := ERROR\<rparr>"

definition intr_failed :: "nat InterruptHal" where
  "intr_failed = intr_bench\<lparr>state := ERROR\<rparr>"

section \<open>Properties\<close>

lemmas esp_err_defs =
  ESP_OK_def ESP_FAIL_def ESP_ERR_NO_MEM_def ESP_ERR_INVALID_ARG_def
  ESP_ERR_INVALID_STATE_def ESP_ERR_NOT_FOUND_def ESP_ERR_NOT_SUPPORTED_def
  ESP_ERR_TIMEOUT_def

lemma esp_err_distinct [simp]:
  "ESP_ERR_INVALID_STATE \<noteq> ESP_OK" "ESP_ERR_INVALID_ARG \<noteq> ESP_OK"
  "ESP_ERR_NO_MEM \<noteq> ESP_OK" "ESP_ERR_NOT_FOUND \<noteq> ESP_OK" "ESP_FAIL \<noteq> ESP_OK"
  "ESP_ERR_INVALID_ARG \<noteq> ESP_ERR_INVALID_STATE"
  "ESP_ERR_INVALID_STATE \<noteq> ESP_ERR_INVALID_ARG"
  by (simp_all add: esp_err_defs)




subsection \<open>ADC: linear estimate without calibration (C1)\<close>



subsection \<open>ADC: filtered read (C2)\<close>

lemma read_keeps_maps:
  assumes "read drv ch result s = (ret, r, s1)"
  shows "filter_values s1 = filter_values s \<and> calibration_handles s1 = calibration_handles s
       \<and> adc_config s1 = adc_config s"
  using assms by (auto simp: read_def Let_def split: if_splits prod.splits option.splits)

lemma read_voltage_via_convertToVoltage:
  assumes "read drv ch result s = (ESP_OK, r, s1)"
    and "fst (convertToVoltage drv ch (raw_value r) (voltage_mv result) s) = ESP_OK"
  shows "voltage_mv r = snd (convertToVoltage drv ch (raw_value r) (voltage_mv result) s)"
  using assms
  by (auto simp: read_def convertToVoltage_def Let_def
           split: if_splits prod.splits option.splits)

text \<open>
  What \<open>readFiltered\<close> does on a running driver, for every interpretation of the
  arithmetic: rejection when one of its two comparisons holds; otherwise, after a
  successful read, seeding of an absent filter state, or the update of the state by the
  moving average with the code converted from it and the voltage taken from the
  conversion path of \<open>convertToVoltage\<close>.
\<close>

lemma readFiltered_steps:
  assumes run: "isRunning s"
  shows
    "(f_less F alpha (f_zero F) \<or> f_less F (f_one F) alpha \<longrightarrow>
        readFiltered F drv ch alpha result s = (ESP_ERR_INVALID_ARG, result, s))
   \<and> (\<not> f_less F alpha (f_zero F) \<and> \<not> f_less F (f_one F) alpha
        \<and> read drv ch result s = (ESP_OK, r, s1) \<longrightarrow>
        (filter_values s ch = None \<longrightarrow>
           readFiltered F drv ch alpha result s
             = (ESP_OK, r,
                s1\<lparr>filter_values := (filter_values s)(ch \<mapsto> f_of_int F (raw_value r))\<rparr>))
      \<and> (filter_values s ch = Some previous \<longrightarrow>
           readFiltered F drv ch alpha result s
             = (ESP_OK,
                r\<lparr>raw_value := f_to_int F (spec_ema F alpha (raw_value r) previous),
                  voltage_mv :=
                    snd (convertToVoltage drv ch
                           (f_to_int F (spec_ema F alpha (raw_value r) previous))
                           (voltage_mv r) s)\<rparr>,
                s1\<lparr>filter_values :=
                     (filter_values s)(ch \<mapsto> spec_ema F alpha (raw_value r) previous)\<rparr>))
      \<and> (fst (convertToVoltage drv ch (raw_value r) (voltage_mv result) s) = ESP_OK \<longrightarrow>
           voltage_mv r = snd (convertToVoltage drv ch (raw_value r) (voltage_mv result) s)))"
proof (intro conjI impI)
  assume "f_less F alpha (f_zero F) \<or> f_less F (f_one F) alpha"
  then show "readFiltered F drv ch alpha result s = (ESP_ERR_INVALID_ARG, result, s)"
    using run by (auto simp: readFiltered_def)
next
  assume a: "\<not> f_less F alpha (f_zero F) \<and> \<not> f_less F (f_one F) alpha
             \<and> read drv ch result s = (ESP_OK, r, s1)"
    and f: "filter_values s ch = None"
  from a have rd: "read drv ch result s = (ESP_OK, r, s1)" by simp
  note k = read_keeps_maps [OF rd]
  show "readFiltered F drv ch alpha result s
          = (ESP_OK, r,
             s1\<lparr>filter_values := (filter_values s)(ch \<mapsto> f_of_int F (raw_value r))\<rparr>)"
    using run a f k by (simp add: readFiltered_def)
next
  assume a: "\<not> f_less F alpha (f_zero F) \<and> \<not> f_less F (f_one F) alpha
             \<and> read drv ch result s = (ESP_OK, r, s1)"
    and f: "filter_values s ch = Some previous"
  from a have rd: "read drv ch result s = (ESP_OK, r, s1)" by simp
  note k = read_keeps_maps [OF rd]
  show "readFiltered F drv ch alpha result s
          = (ESP_OK,
             r\<lparr>raw_value := f_to_int F (spec_ema F alpha (raw_value r) previous),
               voltage_mv :=
                 snd (convertToVoltage drv ch
                        (f_to_int F (spec_ema F alpha (raw_value r) previous))
                        (voltage_mv r) s)\<rparr>,
             s1\<lparr>filter_values :=
                  (filter_values s)(ch \<mapsto> spec_ema F alpha (raw_value r) previous)\<rparr>)"
    using run a f k
    by (simp add: readFiltered_def convertToVoltage_def spec_ema_def Let_def
             split: option.splits)
next
  assume a: "\<not> f_less F alpha (f_zero F) \<and> \<not> f_less F (f_one F) alpha
             \<and> read drv ch result s = (ESP_OK, r, s1)"
    and c: "fst (convertToVoltage drv ch (raw_value r) (voltage_mv result) s) = ESP_OK"
  from a have rd: "read drv ch result s = (ESP_OK, r, s1)" by simp
  show "voltage_mv r = snd (convertToVoltage drv ch (raw_value r) (voltage_mv result) s)"
    using rd c by (rule read_voltage_via_convertToVoltage)
qed


text \<open>
  Claim C2, evaluated on the code at two inputs.

  First, the coefficient NaN on the driver holding a filter state, for any arithmetic
  extended by NaN: neither \<open>alpha < 0.0f\<close> nor \<open>alpha > 1.0f\<close> holds, so the call is
  not rejected; it returns \<open>ESP_OK\<close> and the filter state of the channel is NaN
  afterwards. On the driver without a filter state it returns \<open>ESP_OK\<close> as well.

  Second, a coefficient that passes the test, on the driver whose channel has a
  calibration handle, when the platform's conversion reports an error (for any
  arithmetic, coefficient and previous state): the returned voltage is 550 mV, the
  estimate \<open>read\<close> made for the unfiltered sample 2048, whatever the filtered code is.
  \<open>read\<close> itself, on the same driver and platform, reports the linear estimate for the
  code it is given: 409 mV for the code 1524, which is the filtered code for
  \<open>alpha = 0.5f\<close> and the previous state \<open>1000.0f\<close>.
\<close>

theorem readFiltered_accepts_nan_and_keeps_stale_voltage:
  "readFiltered (with_nan F nan_code) bench_adc 3 None blank_result (filter_bench (Some p))
     = (ESP_OK,
        \<lparr>raw_value = nan_code, voltage_mv = (nan_code * 1100) div 4095, calibrated = False\<rparr>,
        (filter_bench (Some p))\<lparr>adc_reads := 1, filter_values := [3 \<mapsto> None]\<rparr>)
   \<and> fst (readFiltered (with_nan F nan_code) bench_adc 3 None blank_result
             ((filter_bench (Some p))\<lparr>filter_values := Map.empty\<rparr>)) = ESP_OK
   \<and> readFiltered G failing_cali 3 alpha blank_result (filter_bench_calibrated q)
     = (if f_less G alpha (f_zero G) \<or> f_less G (f_one G) alpha
        then (ESP_ERR_INVALID_ARG, blank_result, filter_bench_calibrated q)
        else (ESP_OK,
              \<lparr>raw_value = f_to_int G (spec_ema G alpha 2048 q), voltage_mv = 550,
                calibrated = False\<rparr>,
              (filter_bench_calibrated q)
                \<lparr>adc_reads := 1, filter_values := [3 \<mapsto> spec_ema G alpha 2048 q]\<rparr>))
   \<and> fst (snd (read (failing_cali\<lparr>adc_oneshot_read := (\<lambda>n ch. (ESP_OK, 1524))\<rparr>) 3
                  blank_result (filter_bench_calibrated q)))
     = \<lparr>raw_value = 1524, voltage_mv = 409, calibrated = False\<rparr>"
  by (simp add: readFiltered_def read_def with_nan_def bench_adc_def failing_cali_def
                filter_bench_def filter_bench_calibrated_def blank_result_def isRunning_def
                spec_ema_def Let_def)

subsection \<open>Lifecycle tests (C3)\<close>

text \<open>
  Claim C3 (as amended). For the ADC, I2C and timer/interrupt drivers: an operation that
  carries a lifecycle test (\<open>configure\<close>, \<open>start\<close>, \<open>configureChannel\<close> need
  Initialized or Running; the read, write, register, scan and registration operations
  need Running) returns \<open>ESP_ERR_INVALID_STATE\<close> outside its required state and leaves
  the object unchanged; a driver in Error is outside every required state. \<open>stop\<close> and
  \<open>reset\<close> carry no test: from every state, Error included, \<open>stop\<close> returns \<open>ESP_OK\<close>
  and the state becomes Suspended, \<open>reset\<close> returns \<open>ESP_OK\<close> and the state becomes
  Initialized.
\<close>

theorem lifecycle_guards:
  fixes a :: "'f AdcHal" and b :: I2cHal and c :: "'w InterruptHal"
  shows "(\<not> isInitialized a \<longrightarrow>
            configure adrv a = (ESP_ERR_INVALID_STATE, a)
            \<and> start a = (ESP_ERR_INVALID_STATE, a)
            \<and> configureChannel adrv cc a = (ESP_ERR_INVALID_STATE, a))
       \<and> (\<not> isRunning a \<longrightarrow>
            read adrv ch res a = (ESP_ERR_INVALID_STATE, res, a)
            \<and> readAverage adrv ch samples res a = Some (ESP_ERR_INVALID_STATE, res, a)
            \<and> readFiltered F adrv ch alpha res a = (ESP_ERR_INVALID_STATE, res, a))
       \<and> (\<not> isInitialized b \<longrightarrow>
            i2c_configure idrv b = (ESP_ERR_INVALID_STATE, b)
            \<and> i2c_start idrv b = (ESP_ERR_INVALID_STATE, b))
       \<and> (\<not> isRunning b \<longrightarrow>
            i2c_write idrv dev data timeout b = (ESP_ERR_INVALID_STATE, b)
            \<and> i2c_read idrv dev data len timeout b = (ESP_ERR_INVALID_STATE, data, b)
            \<and> writeRegister idrv dev reg data timeout b = (ESP_ERR_INVALID_STATE, b)
            \<and> readRegister idrv dev reg data len timeout b = (ESP_ERR_INVALID_STATE, data, b)
            \<and> scanBus idrv data b = (ESP_ERR_INVALID_STATE, data, b))
       \<and> (\<not> isInitialized c \<longrightarrow>
            intr_configure c = (ESP_ERR_INVALID_STATE, c)
            \<and> intr_start c = (ESP_ERR_INVALID_STATE, c))
       \<and> (\<not> isRunning c \<longrightarrow>
            createHighResTimer ndrv tid tconfig cb c = (ESP_ERR_INVALID_STATE, c)
            \<and> registerInterrupt ndrv iid sconfig hdl c = (ESP_ERR_INVALID_STATE, c))
       \<and> (state a = ERROR \<longrightarrow> \<not> isInitialized a \<and> \<not> isRunning a)
       \<and> (state b = ERROR \<longrightarrow> \<not> isInitialized b \<and> \<not> isRunning b)
       \<and> (state c = ERROR \<longrightarrow> \<not> isInitialized c \<and> \<not> isRunning c)
       \<and> fst (stop a) = ESP_OK \<and> state (snd (stop a)) = SUSPENDED
       \<and> fst (reset a) = ESP_OK \<and> state (snd (reset a)) = INITIALIZED
       \<and> fst (i2c_stop b) = ESP_OK \<and> state (snd (i2c_stop b)) = SUSPENDED
       \<and> fst (i2c_reset b) = ESP_OK \<and> state (snd (i2c_reset b)) = INITIALIZED
       \<and> fst (intr_stop c) = ESP_OK \<and> state (snd (intr_stop c)) = SUSPENDED
       \<and> fst (intr_reset c) = ESP_OK \<and> state (snd (intr_reset c)) = INITIALIZED"
  by (simp add: configure_def start_def configureChannel_def read_def readAverage_def
        readFiltered_def i2c_configure_def i2c_start_def i2c_write_def i2c_read_def
        writeRegister_def readRegister_def scanBus_def intr_configure_def intr_start_def
        createHighResTimer_def registerInterrupt_def isInitialized_def isRunning_def
        stop_def reset_def i2c_stop_def i2c_reset_def intr_stop_def intr_reset_def setState_def
        Let_def)

text \<open>
  The claim as stated fails for \<open>stop\<close>: on an ADC driver and on an I2C driver in Error
  it returns \<open>ESP_OK\<close> and the state becomes Suspended.
\<close>

theorem stop_from_error_counterexample:
  "state adc_failed = ERROR
   \<and> fst (stop adc_failed) = ESP_OK \<and> state (snd (stop adc_failed)) = SUSPENDED
   \<and> state i2c_failed = ERROR
   \<and> fst (i2c_stop i2c_failed) = ESP_OK \<and> state (snd (i2c_stop i2c_failed)) = SUSPENDED"
  by (simp add: adc_failed_def i2c_failed_def stop_def i2c_stop_def setState_def)

theorem lifecycle_guards_witness:
  "state adc_failed = ERROR \<and> state i2c_failed = ERROR \<and> state intr_failed = ERROR
   \<and> \<not> isInitialized adc_failed \<and> \<not> isRunning adc_failed
   \<and> \<not> isInitialized i2c_failed \<and> \<not> isRunning i2c_failed
   \<and> \<not> isInitialized intr_failed \<and> \<not> isRunning intr_failed
   \<and> configure bench_adc adc_failed = (ESP_ERR_INVALID_STATE, adc_failed)
   \<and> start adc_failed = (ESP_ERR_INVALID_STATE, adc_failed)
   \<and> read bench_adc 3 blank_result adc_failed = (ESP_ERR_INVALID_STATE, blank_result, adc_failed)
   \<and> i2c_start two_device_bus i2c_failed = (ESP_ERR_INVALID_STATE, i2c_failed)
   \<and> readRegister two_device_bus 0x68 0x75 [] 2 1000 i2c_failed
       = (ESP_ERR_INVALID_STATE, [], i2c_failed)
   \<and> registerInterrupt easy_intr 9 line_config None intr_failed
       = (ESP_ERR_INVALID_STATE, intr_failed)
   \<and> state (snd (stop adc_failed)) = SUSPENDED
   \<and> state (snd (i2c_reset i2c_failed)) = INITIALIZED"
proof -
  have e: "state adc_failed = ERROR" "state i2c_failed = ERROR" "state intr_failed = ERROR"
    by (simp_all add: adc_failed_def i2c_failed_def intr_failed_def)
  from lifecycle_guards [where a = adc_failed and b = i2c_failed and c = intr_failed]
  show ?thesis using e by simp
qed

subsection \<open>Registering an id twice (C4)\<close>

text \<open>
  Claim C4 (as amended). For interrupt ids and timer ids on a running driver:
  registering an id that is already registered fails with \<open>ESP_ERR_INVALID_ARG\<close> (the
  code has no separate already-bound error) and leaves the object, the existing entry
  included, unchanged; after a successful \<open>unregisterInterrupt\<close> or \<open>deleteTimer\<close> of the
  id, registering it again succeeds whenever the platform's allocation does, and installs
  the new entry. For GPIO pins \<open>setInterrupt\<close> makes no such check: on a valid pin, when
  the platform calls succeed, it returns \<open>ESP_OK\<close> and the pin's callback is the new one,
  whether or not the pin had a callback before.
\<close>

theorem rebinding_after_unbind:
  shows "(isRunning s \<and> interrupts s interrupt_id = Some ii \<longrightarrow>
            registerInterrupt drv interrupt_id config hdl s = (ESP_ERR_INVALID_ARG, s))
       \<and> (isRunning s \<and> timers s timer_id = Some ti \<longrightarrow>
            createHighResTimer drv timer_id tconfig cb s = (ESP_ERR_INVALID_ARG, s))
       \<and> (isRunning s \<and> unregisterInterrupt drv interrupt_id s = (ESP_OK, s1)
            \<and> esp_intr_alloc drv (source config) (flags config) interrupt_id = (ESP_OK, h) \<longrightarrow>
            registerInterrupt drv interrupt_id config hdl s1
              = (ESP_OK,
                 s1\<lparr>interrupts := (interrupts s1)(interrupt_id \<mapsto>
                      \<lparr>intr_handle = h, intr_config = config, handler = hdl,
                       intr_stats = Statistics_zero\<rparr>)\<rparr>))
       \<and> (isRunning s \<and> deleteTimer drv timer_id s = (ESP_OK, s2)
            \<and> esp_timer_create drv timer_id = (ESP_OK, th) \<longrightarrow>
            createHighResTimer drv timer_id tconfig cb s2
              = (ESP_OK,
                 s2\<lparr>timers := (timers s2)(timer_id \<mapsto>
                      \<lparr>timer_handle = th, timer_config = tconfig, callback = cb,
                       timer_stats = Statistics_zero\<rparr>)\<rparr>))
       \<and> (isValidPin gdrv p
            \<and> (isr_service_installed (fst g) \<or> gpio_install_isr_service gdrv = ESP_OK)
            \<and> gpio_set_intr_type gdrv p type = ESP_OK \<and> gpio_isr_handler_add gdrv p = ESP_OK \<longrightarrow>
            fst (setInterrupt gdrv this p type new_cb g) = ESP_OK
            \<and> callbacks (snd (snd (setInterrupt gdrv this p type new_cb g))) p = Some new_cb)"
proof (intro conjI impI)
  assume "isRunning s \<and> interrupts s interrupt_id = Some ii"
  then show "registerInterrupt drv interrupt_id config hdl s = (ESP_ERR_INVALID_ARG, s)"
    by (simp add: registerInterrupt_def)
next
  assume "isRunning s \<and> timers s timer_id = Some ti"
  then show "createHighResTimer drv timer_id tconfig cb s = (ESP_ERR_INVALID_ARG, s)"
    by (simp add: createHighResTimer_def)
next
  assume a: "isRunning s \<and> unregisterInterrupt drv interrupt_id s = (ESP_OK, s1)
            \<and> esp_intr_alloc drv (source config) (flags config) interrupt_id = (ESP_OK, h)"
  then have "isRunning s1 \<and> interrupts s1 interrupt_id = None"
    by (auto simp: unregisterInterrupt_def isRunning_def Let_def
             split: option.splits if_splits)
  with a show "registerInterrupt drv interrupt_id config hdl s1
              = (ESP_OK,
                 s1\<lparr>interrupts := (interrupts s1)(interrupt_id \<mapsto>
                      \<lparr>intr_handle = h, intr_config = config, handler = hdl,
                       intr_stats = Statistics_zero\<rparr>)\<rparr>)"
    by (simp add: registerInterrupt_def)
next
  assume a: "isRunning s \<and> deleteTimer drv timer_id s = (ESP_OK, s2)
            \<and> esp_timer_create drv timer_id = (ESP_OK, th)"
  then have "isRunning s2 \<and> timers s2 timer_id = None"
    by (auto simp: deleteTimer_def isRunning_def Let_def split: option.splits if_splits)
  with a show "createHighResTimer drv timer_id tconfig cb s2
              = (ESP_OK,
                 s2\<lparr>timers := (timers s2)(timer_id \<mapsto>
                      \<lparr>timer_handle = th, timer_config = tconfig, callback = cb,
                       timer_stats = Statistics_zero\<rparr>)\<rparr>)"
    by (simp add: createHighResTimer_def)
next
  assume a: "isValidPin gdrv p
            \<and> (isr_service_installed (fst g) \<or> gpio_install_isr_service gdrv = ESP_OK)
            \<and> gpio_set_intr_type gdrv p type = ESP_OK \<and> gpio_isr_handler_add gdrv p = ESP_OK"
  then show "fst (setInterrupt gdrv this p type new_cb g) = ESP_OK"
    by (auto simp: setInterrupt_def installIsrService_def Let_def split: option.splits)
  from a show "callbacks (snd (snd (setInterrupt gdrv this p type new_cb g))) p = Some new_cb"
    by (auto simp: setInterrupt_def installIsrService_def Let_def split: option.splits)
qed

theorem rebinding_after_unbind_witness:
  "isRunning intr_bench
   \<and> registerInterrupt easy_intr 5 line_config None intr_bench = (ESP_ERR_INVALID_ARG, intr_bench)
   \<and> createHighResTimer easy_intr 7 tick_config None intr_bench = (ESP_ERR_INVALID_ARG, intr_bench)
   \<and> fst (unregisterInterrupt easy_intr 5 intr_bench) = ESP_OK
   \<and> fst (registerInterrupt easy_intr 5 line_config None
            (snd (unregisterInterrupt easy_intr 5 intr_bench))) = ESP_OK
   \<and> fst (deleteTimer easy_intr 7 intr_bench) = ESP_OK
   \<and> fst (createHighResTimer easy_intr 7 tick_config None
            (snd (deleteTimer easy_intr 7 intr_bench))) = ESP_OK
   \<and> isValidPin easy_gpio 4
   \<and> fst (setInterrupt easy_gpio 1 4 POSEDGE ''first'' gpio_fresh) = ESP_OK"
proof -
  have run: "isRunning intr_bench"
    by (simp add: isRunning_def intr_bench_def)
  have i5: "interrupts intr_bench 5
            = Some \<lparr>intr_handle = 200, intr_config = line_config,
                    handler = Some (\<lambda>w. w + 10), intr_stats = Statistics_zero\<rparr>"
    by (simp add: intr_bench_def)
  have t7: "timers intr_bench 7
            = Some \<lparr>timer_handle = 100, timer_config = tick_config,
                    callback = Some Suc, timer_stats = Statistics_zero\<rparr>"
    by (simp add: intr_bench_def)
  have un: "unregisterInterrupt easy_intr 5 intr_bench
            = (ESP_OK, intr_bench\<lparr>interrupts := (interrupts intr_bench)(5 := None)\<rparr>)"
    using i5 by (simp add: unregisterInterrupt_def easy_intr_def)
  have del: "deleteTimer easy_intr 7 intr_bench
            = (ESP_OK, intr_bench\<lparr>timers := (timers intr_bench)(7 := None)\<rparr>)"
    using t7 by (simp add: deleteTimer_def easy_intr_def)
  have al: "esp_intr_alloc easy_intr (source line_config) (flags line_config) 5 = (ESP_OK, 200)"
    by (simp add: easy_intr_def)
  have cr: "esp_timer_create easy_intr 7 = (ESP_OK, 100)"
    by (simp add: easy_intr_def)
  have pinok: "isValidPin easy_gpio 4" "isr_service_installed (fst gpio_fresh)"
    "gpio_set_intr_type easy_gpio 4 POSEDGE = ESP_OK" "gpio_isr_handler_add easy_gpio 4 = ESP_OK"
    by (simp_all add: isValidPin_def easy_gpio_def gpio_fresh_def)
  from rebinding_after_unbind
         [where s = intr_bench and interrupt_id = 5 and drv = easy_intr
            and ii = "\<lparr>intr_handle = 200, intr_config = line_config,
                      handler = Some (\<lambda>w. w + 10), intr_stats = Statistics_zero\<rparr>"
            and ti = "\<lparr>timer_handle = 100, timer_config = tick_config,
                      callback = Some Suc, timer_stats = Statistics_zero\<rparr>"
            and config = line_config and hdl = None and timer_id = 7
            and tconfig = tick_config and cb = None
            and ?s1.0 = "intr_bench\<lparr>interrupts := (interrupts intr_bench)(5 := None)\<rparr>"
            and h = 200 and th = 100
            and ?s2.0 = "intr_bench\<lparr>timers := (timers intr_bench)(7 := None)\<rparr>"
            and gdrv = easy_gpio and p = 4 and g = gpio_fresh and type = POSEDGE
            and this = 1 and new_cb = "''first''"]
  show ?thesis using run i5 t7 un del al cr pinok by simp
qed

text \<open>
  The claim as stated fails for GPIO pins: a second \<open>setInterrupt\<close> on pin 4 without
  \<open>disableInterrupt\<close> in between returns \<open>ESP_OK\<close> and replaces the callback.
\<close>

theorem gpio_rebinding_counterexample:
  "fst (setInterrupt easy_gpio 1 4 POSEDGE ''first'' gpio_fresh) = ESP_OK
   \<and> callbacks (snd (snd (setInterrupt easy_gpio 1 4 POSEDGE ''first'' gpio_fresh))) 4
       = Some ''first''
   \<and> fst (setInterrupt easy_gpio 1 4 POSEDGE ''second''
            (snd (setInterrupt easy_gpio 1 4 POSEDGE ''first'' gpio_fresh))) = ESP_OK
   \<and> callbacks (snd (snd (setInterrupt easy_gpio 1 4 POSEDGE ''second''
                             (snd (setInterrupt easy_gpio 1 4 POSEDGE ''first'' gpio_fresh))))) 4
       = Some ''second''"
  by (simp add: setInterrupt_def easy_gpio_def gpio_fresh_def isValidPin_def Let_def)

subsection \<open>I2C: register read framing (C5)\<close>

lemma foldl_cmd_add_ok:
  assumes "\<And>cs c. i2c_cmd_append drv cs c = ESP_OK"
  shows "foldl (cmd_add drv) (ESP_OK, acc) xs = (ESP_OK, acc @ xs)"
  using assms by (induction xs arbitrary: acc) (simp_all add: cmd_add_def ESP_OK_def)

lemma build_cmds_ok:
  assumes "\<And>cs c. i2c_cmd_append drv cs c = ESP_OK"
  shows "build_cmds drv xs = (ESP_OK, xs)"
  using foldl_cmd_add_ok [OF assms, of "[]" xs] by (simp add: build_cmds_def)

lemma readRegister_wire:
  "concat (map bus_frame (readRegister_cmds dev reg len))
     = [START, SEND (push_bit 1 dev) True, SEND reg True, START, SEND (push_bit 1 dev OR 1) True]
       @ replicate (len - 1) RECV_ACK @ [RECV_NACK, STOP]"
  by (simp add: readRegister_cmds_def I2C_MASTER_WRITE_def I2C_MASTER_READ_def)

text \<open>
  Claim C5. On a running driver, when the command link can be allocated and filled,
  \<open>readRegister\<close> with a length of at least one hands exactly one transaction to the
  bus, and on the wire this transaction is START, address with write bit, register byte,
  repeated START, address with read bit, \<open>len - 1\<close> bytes answered with ACK, one byte
  answered with NACK, STOP; the only STOP is the last event. Nothing else in the object
  changes. With length zero it returns \<open>ESP_ERR_INVALID_ARG\<close> and the object, bus log
  included, is unchanged. (Mutual exclusion between threads is outside this sequential
  model.)
\<close>

theorem readRegister_single_frame:
  assumes "isRunning s"
    and "i2c_cmd_link_create drv (bus_log s)"
    and "\<And>cs c. i2c_cmd_append drv cs c = ESP_OK"
  shows "(0 < len \<longrightarrow>
           snd (snd (readRegister drv dev reg data len timeout s))
             = s\<lparr>bus_log := bus_log s
                    @ [(port (i2c_config s), readRegister_cmds dev reg len, timeout)]\<rparr>
           \<and> concat (map bus_frame (readRegister_cmds dev reg len))
             = [START, SEND (push_bit 1 dev) True, SEND reg True,
                START, SEND (push_bit 1 dev OR 1) True]
               @ replicate (len - 1) RECV_ACK @ [RECV_NACK, STOP])
       \<and> readRegister drv dev reg data 0 timeout s = (ESP_ERR_INVALID_ARG, data, s)"
proof (intro conjI impI)
  assume len: "0 < len"
  have b: "build_cmds drv (readRegister_cmds dev reg len) = (ESP_OK, readRegister_cmds dev reg len)"
    using assms(3) by (rule build_cmds_ok)
  show "snd (snd (readRegister drv dev reg data len timeout s))
          = s\<lparr>bus_log := bus_log s
                 @ [(port (i2c_config s), readRegister_cmds dev reg len, timeout)]\<rparr>"
    using assms(1,2) len b
    by (simp add: readRegister_def cmd_begin_def Let_def split: prod.splits)
next
  show "concat (map bus_frame (readRegister_cmds dev reg len))
          = [START, SEND (push_bit 1 dev) True, SEND reg True,
             START, SEND (push_bit 1 dev OR 1) True]
            @ replicate (len - 1) RECV_ACK @ [RECV_NACK, STOP]"
    by (rule readRegister_wire)
next
  show "readRegister drv dev reg data 0 timeout s = (ESP_ERR_INVALID_ARG, data, s)"
    using assms(1) by (simp add: readRegister_def)
qed

theorem readRegister_single_frame_witness:
  "isRunning i2c_running
   \<and> i2c_cmd_link_create two_device_bus (bus_log i2c_running)
   \<and> bus_log (snd (snd (readRegister two_device_bus 0x68 0x75 [] 3 1000 i2c_running)))
       = [(0, readRegister_cmds 0x68 0x75 3, 1000)]
   \<and> concat (map bus_frame (readRegister_cmds 0x68 0x75 3))
       = [START, SEND 0xD0 True, SEND 0x75 True, START, SEND 0xD1 True,
          RECV_ACK, RECV_ACK, RECV_NACK, STOP]
   \<and> readRegister two_device_bus 0x68 0x75 [] 0 1000 i2c_running
       = (ESP_ERR_INVALID_ARG, [], i2c_running)"
proof -
  have run: "isRunning i2c_running"
    by (simp add: isRunning_def i2c_running_def)
  have lk: "i2c_cmd_link_create two_device_bus (bus_log i2c_running)"
    by (simp add: two_device_bus_def)
  have ap: "\<And>cs c. i2c_cmd_append two_device_bus cs c = ESP_OK"
    by (simp add: two_device_bus_def)
  have three: "replicate (3 - 1) RECV_ACK = [RECV_ACK, RECV_ACK]"
    by (simp add: numeral_2_eq_2)
  from readRegister_single_frame [OF run lk ap, of 3 "0x68" "0x75" "[]" 1000]
  show ?thesis using run lk ap three
    by (simp add: i2c_running_def)
qed

subsection \<open>Timer and interrupt trampolines (C6)\<close>

text \<open>
  Claim C6, evaluated on the code. Timer 7 and interrupt 5 are registered with counters
  at zero. A call of either trampoline returns at the null test of its static instance
  pointer: the counter is still zero and the callback has not run (the client's value is
  still 0). The statements after the test, had they been reached, would have set the
  counter to one and run the callback.
\<close>

theorem trampolines_return_early:
  "espTimerCallback 7 (intr_bench, 0) = (intr_bench, 0)
   \<and> interruptHandlerWrapper 5 (intr_bench, 0) = (intr_bench, 0)
   \<and> map_option (\<lambda>ti. total_count (timer_stats ti)) (timers intr_bench 7) = Some 0
   \<and> map_option (\<lambda>ti. total_count (timer_stats ti))
        (timers (fst (timer_dispatch 7 (intr_bench, 0))) 7) = Some 1
   \<and> snd (timer_dispatch 7 (intr_bench, 0)) = 1
   \<and> map_option (\<lambda>ii. total_count (intr_stats ii))
        (interrupts (fst (interrupt_dispatch 5 (intr_bench, 0))) 5) = Some 1
   \<and> snd (interrupt_dispatch 5 (intr_bench, 0)) = 10"
  by (simp add: espTimerCallback_def interruptHandlerWrapper_def timer_dispatch_def
                interrupt_dispatch_def intr_bench_def Statistics_zero_def)

text \<open>The same for every argument and every state.\<close>

lemma trampolines_identity:
  "espTimerCallback arg \<sigma> = \<sigma> \<and> interruptHandlerWrapper arg \<sigma> = \<sigma>"
  by (simp add: espTimerCallback_def interruptHandlerWrapper_def)

subsection \<open>ADC: channel configuration (C7)\<close>

text \<open>
  Claim C7. On a platform whose \<open>adc_oneshot_config_channel\<close> rejects the channel
  numbers outside the unit's range with \<open>ESP_ERR_INVALID_ARG\<close>, as the platform does,
  \<open>configureChannel\<close> for a channel outside that range stores nothing: the object,
  channel configurations included, is unchanged. On an Initialized or Running driver it
  returns \<open>ESP_ERR_INVALID_ARG\<close>; on a driver in any other state the lifecycle test
  comes first and it returns \<open>ESP_ERR_INVALID_STATE\<close>.
\<close>

theorem configureChannel_rejects_out_of_range:
  assumes "\<And>ch att bw. \<not> isValidChannel s ch
             \<Longrightarrow> adc_oneshot_config_channel drv ch att bw = ESP_ERR_INVALID_ARG"
    and "\<not> isValidChannel s (channel cfg)"
  shows "snd (configureChannel drv cfg s) = s
       \<and> channels (snd (configureChannel drv cfg s)) = channels s
       \<and> (isInitialized s \<longrightarrow> configureChannel drv cfg s = (ESP_ERR_INVALID_ARG, s))
       \<and> (\<not> isInitialized s \<longrightarrow> configureChannel drv cfg s = (ESP_ERR_INVALID_STATE, s))"
proof -
  have "adc_oneshot_config_channel drv (channel cfg) (attenuation cfg)
          (bit_width (adc_config s)) = ESP_ERR_INVALID_ARG"
    using assms by simp
  then show ?thesis
    by (simp add: configureChannel_def)
qed

theorem configureChannel_rejects_out_of_range_witness:
  "\<not> isValidChannel bench_running 12
   \<and> adc_oneshot_config_channel strict_adc 12 DB_11 WIDTH_DEFAULT = ESP_ERR_INVALID_ARG
   \<and> adc_oneshot_config_channel strict_adc (- 1) DB_0 WIDTH_12BIT = ESP_ERR_INVALID_ARG
   \<and> isInitialized bench_running
   \<and> configureChannel strict_adc channel12 bench_running = (ESP_ERR_INVALID_ARG, bench_running)
   \<and> channels (snd (configureChannel strict_adc channel12 bench_running)) = [(3, channel3)]
   \<and> fst (configureChannel strict_adc channel3 bench_running) = ESP_OK"
proof -
  have plat: "\<And>ch att bw. \<not> isValidChannel bench_running ch
                \<Longrightarrow> adc_oneshot_config_channel strict_adc ch att bw = ESP_ERR_INVALID_ARG"
    by (auto simp: isValidChannel_def strict_adc_def bench_adc_def)
  have out: "\<not> isValidChannel bench_running (channel channel12)"
    by (simp add: isValidChannel_def channel12_def)
  have ini: "isInitialized bench_running"
    by (simp add: isInitialized_def bench_running_def)
  have ok3: "fst (configureChannel strict_adc channel3 bench_running) = ESP_OK"
    by (simp add: configureChannel_def strict_adc_def bench_adc_def channel3_def
                  isInitialized_def bench_running_def)
  have chans: "channels bench_running = [(3, channel3)]"
    by (simp add: bench_running_def)
  from configureChannel_rejects_out_of_range [OF plat out]
  show ?thesis using ini out ok3 chans
    by (simp add: channel12_def strict_adc_def bench_adc_def)
qed

subsection \<open>I2C: bus scan (C8)\<close>

lemma deviceExists_running:
  assumes "isRunning s"
    and "\<And>h. i2c_cmd_link_create drv h"
    and "\<And>cs c. i2c_cmd_append drv cs c = ESP_OK"
  shows "deviceExists drv a t s
           = (fst (i2c_master_cmd_begin drv (bus_log s) (port (i2c_config s))
                     (deviceExists_cmds a) t) = ESP_OK,
              s\<lparr>bus_log := bus_log s @ [(port (i2c_config s), deviceExists_cmds a, t)]\<rparr>)"
proof -
  have b: "build_cmds drv (deviceExists_cmds a) = (ESP_OK, deviceExists_cmds a)"
    using assms(3) by (rule build_cmds_ok)
  show ?thesis using assms(1,2) b
    by (simp add: deviceExists_def cmd_begin_def split: prod.splits)
qed

lemma unat_of_nat_small: "i < 120 \<Longrightarrow> unat (of_nat i :: 8 word) = i"
  by (simp add: unat_of_nat)

lemma scan_from_filter:
  assumes lk: "\<And>h. i2c_cmd_link_create drv h"
    and ap: "\<And>cs c. i2c_cmd_append drv cs c = ESP_OK"
  shows "i + n = 120 \<Longrightarrow> 8 \<le> i \<Longrightarrow> isRunning s \<Longrightarrow> port (i2c_config s) = port (i2c_config s0)
     \<Longrightarrow> bus_log s = bus_log s0 @ map (probe drv s0) (map of_nat [8 ..< i])
     \<Longrightarrow> scan_from drv (of_nat i) found s
         = (found @ filter (acknowledges drv s0) (map of_nat [i ..< 120]),
            s\<lparr>bus_log := bus_log s0 @ map (probe drv s0) (map of_nat [8 ..< 120])\<rparr>)"
proof (induction n arbitrary: i found s)
  case 0
  then have i: "i = 120" by simp
  have "\<not> (of_nat i :: 8 word) \<le> 0x77" by (simp add: i)
  then have "scan_from drv (of_nat i) found s = (found, s)"
    by (subst scan_from.simps) simp
  moreover have "s\<lparr>bus_log := bus_log s0 @ map (probe drv s0) (map of_nat [8 ..< 120])\<rparr> = s"
    using "0.prems"(5) i by (simp del: upt_rec_numeral)
  ultimately show ?case by (simp add: i del: upt_rec_numeral)
next
  case (Suc n)
  then have i: "i < 120" by simp
  let ?a = "of_nat i :: 8 word"
  have ua: "unat ?a = i" using i by (rule unat_of_nat_small)
  have le: "?a \<le> 0x77" using i by (simp add: word_le_nat_alt ua)
  let ?s1 = "s\<lparr>bus_log := bus_log s @ [(port (i2c_config s), deviceExists_cmds ?a, pdMS_TO_TICKS drv 100)]\<rparr>"
  have de: "deviceExists drv ?a (pdMS_TO_TICKS drv 100) s = (acknowledges drv s0 ?a, ?s1)"
    using deviceExists_running [OF Suc.prems(3) lk ap, of ?a "pdMS_TO_TICKS drv 100"]
          Suc.prems(4,5)
    by (simp add: acknowledges_def ua del: upt_rec_numeral)
  have run1: "isRunning ?s1" using Suc.prems(3) by (simp add: isRunning_def)
  have log1: "bus_log ?s1 = bus_log s0 @ map (probe drv s0) (map of_nat [8 ..< Suc i])"
    using Suc.prems(2,4,5) by (simp add: probe_def del: upt_rec_numeral)
  have suc: "(of_nat (Suc i) :: 8 word) = ?a + 1" by simp
  have ih: "scan_from drv (?a + 1) fd ?s1
         = (fd @ filter (acknowledges drv s0) (map of_nat [Suc i ..< 120]),
            s\<lparr>bus_log := bus_log s0 @ map (probe drv s0) (map of_nat [8 ..< 120])\<rparr>)" for fd
  proof -
    have "scan_from drv (of_nat (Suc i)) fd ?s1
         = (fd @ filter (acknowledges drv s0) (map of_nat [Suc i ..< 120]),
            ?s1\<lparr>bus_log := bus_log s0 @ map (probe drv s0) (map of_nat [8 ..< 120])\<rparr>)"
    proof (rule Suc.IH)
      show "Suc i + n = 120" using Suc.prems(1) by simp
      show "8 \<le> Suc i" using Suc.prems(2) by simp
      show "isRunning ?s1" by (rule run1)
      show "port (i2c_config ?s1) = port (i2c_config s0)" using Suc.prems(4) by simp
      show "bus_log ?s1 = bus_log s0 @ map (probe drv s0) (map of_nat [8 ..< Suc i])"
        by (rule log1)
    qed
    then show ?thesis by (simp only: suc) simp
  qed
  have step: "scan_from drv ?a found s
        = scan_from drv (?a + 1) (if acknowledges drv s0 ?a then found @ [?a] else found) ?s1"
    using le de by (subst scan_from.simps) simp
  have up: "[i ..< 120] = i # [Suc i ..< 120]" using i by (simp add: upt_conv_Cons)
  show ?case
    unfolding step ih up by simp
qed


lemma scan_range_set: "set scan_range = {a. 0x08 \<le> a \<and> a \<le> 0x77}"
proof (rule set_eqI)
  fix a :: "8 word"
  have "a \<in> set scan_range \<longleftrightarrow> (\<exists>n. 8 \<le> n \<and> n < 120 \<and> a = of_nat n)"
    by (auto simp: scan_range_def simp del: upt_rec_numeral)
  also have "\<dots> \<longleftrightarrow> 8 \<le> unat a \<and> unat a < 120"
  proof
    assume "\<exists>n. 8 \<le> n \<and> n < 120 \<and> a = of_nat n"
    then obtain n where n: "8 \<le> n" "n < 120" "a = of_nat n" by blast
    then have "unat a = n" by (simp add: unat_of_nat)
    with n show "8 \<le> unat a \<and> unat a < 120" by simp
  next
    assume "8 \<le> unat a \<and> unat a < 120"
    then have "8 \<le> unat a \<and> unat a < 120 \<and> a = of_nat (unat a)" by simp
    then show "\<exists>n. 8 \<le> n \<and> n < 120 \<and> a = of_nat n" by blast
  qed
  also have "\<dots> \<longleftrightarrow> 0x08 \<le> a \<and> a \<le> 0x77"
    by (auto simp: word_le_nat_alt)
  finally show "a \<in> set scan_range \<longleftrightarrow> a \<in> {a. 0x08 \<le> a \<and> a \<le> 0x77}" by simp
qed

lemma scan_range_sorted: "sorted scan_range \<and> distinct scan_range"
proof -
  have inj: "inj_on (of_nat :: nat \<Rightarrow> 8 word) (set [8 ..< 120])"
  proof (rule inj_onI)
    fix x y :: nat
    assume x: "x \<in> set [8 ..< 120]" and y: "y \<in> set [8 ..< 120]"
      and e: "(of_nat x :: 8 word) = of_nat y"
    from e have "unat (of_nat x :: 8 word) = unat (of_nat y :: 8 word)" by simp
    then show "x = y" using x y by (simp add: unat_of_nat del: upt_rec_numeral)
  qed
  have "sorted_wrt (\<lambda>x y. (of_nat x :: 8 word) \<le> of_nat y) [8 ..< 120]"
  proof (rule sorted_wrt_mono_rel [where P = "(\<le>)"])
    show "sorted_wrt (\<le>) [8 ..< 120]" by (simp del: upt_rec_numeral)
  next
    fix x y :: nat
    assume "x \<in> set [8 ..< 120]" and "y \<in> set [8 ..< 120]" and "x \<le> y"
    then show "(of_nat x :: 8 word) \<le> of_nat y"
      by (simp add: word_le_nat_alt unat_of_nat del: upt_rec_numeral)
  qed
  then have "sorted (map (of_nat :: nat \<Rightarrow> 8 word) [8 ..< 120])"
    by (simp add: sorted_map del: upt_rec_numeral)
  moreover have "distinct (map (of_nat :: nat \<Rightarrow> 8 word) [8 ..< 120])"
    using inj by (simp add: distinct_map del: upt_rec_numeral)
  ultimately show ?thesis by (simp add: scan_range_def del: upt_rec_numeral)
qed

text \<open>
  Claim C8. On a running driver, when command links can be allocated and filled,
  \<open>scanBus\<close> returns \<open>ESP_OK\<close>; it executes one probe transaction for each address
  from \<open>0x08\<close> to \<open>0x77\<close> in ascending order and nothing else; and the list it returns
  consists of exactly those addresses of the range whose probe was acknowledged, in
  ascending order and without repetition. The witness below is the bus on which only
  \<open>0x23\<close> and \<open>0x68\<close> acknowledge: the result is \<open>[0x23, 0x68]\<close>.
\<close>

theorem scanBus_finds_acknowledging:
  assumes "isRunning s"
    and "\<And>h. i2c_cmd_link_create drv h"
    and "\<And>cs c. i2c_cmd_append drv cs c = ESP_OK"
  shows "scanBus drv found_devices s
           = (ESP_OK, filter (acknowledges drv s) scan_range,
              s\<lparr>bus_log := bus_log s @ map (probe drv s) scan_range\<rparr>)
       \<and> set scan_range = {a. 0x08 \<le> a \<and> a \<le> 0x77}
       \<and> sorted scan_range \<and> distinct scan_range
       \<and> sorted (filter (acknowledges drv s) scan_range)
       \<and> distinct (filter (acknowledges drv s) scan_range)"
proof -
  have "scan_from drv (of_nat 8) [] s
          = ([] @ filter (acknowledges drv s) (map of_nat [8 ..< 120]),
             s\<lparr>bus_log := bus_log s @ map (probe drv s) (map of_nat [8 ..< 120])\<rparr>)"
    by (rule scan_from_filter [OF assms(2,3), of 8 112]) (simp_all add: assms(1))
  then have "scanBus drv found_devices s
           = (ESP_OK, filter (acknowledges drv s) scan_range,
              s\<lparr>bus_log := bus_log s @ map (probe drv s) scan_range\<rparr>)"
    using assms(1) by (simp add: scanBus_def scan_range_def del: upt_rec_numeral)
  then show ?thesis
    using scan_range_set scan_range_sorted by (simp add: sorted_wrt_filter)
qed

lemma two_device_filter:
  "filter (acknowledges two_device_bus i2c_running) scan_range = [0x23, 0x68]"
  by (simp add: scan_range_def acknowledges_def two_device_bus_def deviceExists_cmds_def
                I2C_MASTER_WRITE_def)

theorem scanBus_finds_acknowledging_witness:
  "isRunning i2c_running
   \<and> filter (acknowledges two_device_bus i2c_running) scan_range = [0x23, 0x68]
   \<and> fst (scanBus two_device_bus [] i2c_running) = ESP_OK
   \<and> fst (snd (scanBus two_device_bus [] i2c_running)) = [0x23, 0x68]"
proof -
  have run: "isRunning i2c_running"
    by (simp add: isRunning_def i2c_running_def)
  have lk: "\<And>h. i2c_cmd_link_create two_device_bus h"
    by (simp add: two_device_bus_def)
  have ap: "\<And>cs c. i2c_cmd_append two_device_bus cs c = ESP_OK"
    by (simp add: two_device_bus_def)
  from scanBus_finds_acknowledging [OF run lk ap, of "[]"] show ?thesis
    using run two_device_filter by simp
qed

subsection \<open>I2C: failed reads (C9)\<close>

text \<open>
  Claim C9. On a running driver with a non-zero length, when the command link can be
  allocated and filled and the execution of the queued commands returns an error \<open>e\<close>
  (whatever bytes \<open>rx\<close> the bus delivered before), \<open>read\<close> and \<open>readRegister\<close> return
  \<open>e\<close> with an empty output vector.
\<close>

theorem failed_read_clears_output:
  assumes "isRunning s" and "0 < len"
    and "i2c_cmd_link_create drv (bus_log s)"
    and "\<And>cs c. i2c_cmd_append drv cs c = ESP_OK"
  shows "(i2c_master_cmd_begin drv (bus_log s) (port (i2c_config s)) (read_cmds dev len) timeout
            = (e, rx) \<and> e \<noteq> ESP_OK \<longrightarrow>
          fst (i2c_read drv dev data len timeout s) = e
          \<and> fst (snd (i2c_read drv dev data len timeout s)) = [])
       \<and> (i2c_master_cmd_begin drv (bus_log s) (port (i2c_config s))
             (readRegister_cmds dev reg len) timeout = (e, rx) \<and> e \<noteq> ESP_OK \<longrightarrow>
          fst (readRegister drv dev reg data len timeout s) = e
          \<and> fst (snd (readRegister drv dev reg data len timeout s)) = [])"
proof -
  have b1: "build_cmds drv (read_cmds dev len) = (ESP_OK, read_cmds dev len)"
    using assms(4) by (rule build_cmds_ok)
  have b2: "build_cmds drv (readRegister_cmds dev reg len) = (ESP_OK, readRegister_cmds dev reg len)"
    using assms(4) by (rule build_cmds_ok)
  show ?thesis
    using assms(1,2,3) b1 b2
    by (simp add: i2c_read_def readRegister_def cmd_begin_def Let_def)
qed

theorem failed_read_clears_output_witness:
  "isRunning i2c_running \<and> (0::nat) < 2
   \<and> i2c_master_cmd_begin two_device_bus (bus_log i2c_running) (port (i2c_config i2c_running))
        (read_cmds 0x50 2) 1000 = (ESP_FAIL, [0xFF])
   \<and> ESP_FAIL \<noteq> ESP_OK
   \<and> i2c_master_cmd_begin two_device_bus (bus_log i2c_running) (port (i2c_config i2c_running))
        (readRegister_cmds 0x50 0x0F 2) 1000 = (ESP_FAIL, [0xFF])
   \<and> fst (i2c_read two_device_bus 0x50 [1, 2, 3] 2 1000 i2c_running) = ESP_FAIL
   \<and> fst (snd (i2c_read two_device_bus 0x50 [1, 2, 3] 2 1000 i2c_running)) = []
   \<and> fst (readRegister two_device_bus 0x50 0x0F [1, 2, 3] 2 1000 i2c_running) = ESP_FAIL
   \<and> fst (snd (readRegister two_device_bus 0x50 0x0F [1, 2, 3] 2 1000 i2c_running)) = []"
proof -
  have run: "isRunning i2c_running"
    by (simp add: isRunning_def i2c_running_def)
  have lk: "i2c_cmd_link_create two_device_bus (bus_log i2c_running)"
    by (simp add: two_device_bus_def)
  have ap: "\<And>cs c. i2c_cmd_append two_device_bus cs c = ESP_OK"
    by (simp add: two_device_bus_def)
  have e1: "i2c_master_cmd_begin two_device_bus (bus_log i2c_running)
              (port (i2c_config i2c_running)) (read_cmds 0x50 2) 1000 = (ESP_FAIL, [0xFF])"
    by (simp add: two_device_bus_def read_cmds_def I2C_MASTER_READ_def)
  have e2: "i2c_master_cmd_begin two_device_bus (bus_log i2c_running)
              (port (i2c_config i2c_running)) (readRegister_cmds 0x50 0x0F 2) 1000
            = (ESP_FAIL, [0xFF])"
    by (simp add: two_device_bus_def readRegister_cmds_def I2C_MASTER_WRITE_def)
  have pos: "(0::nat) < 2" by simp
  from failed_read_clears_output [OF run pos lk ap, of "0x50" 1000 ESP_FAIL "[0xFF]" "[1, 2, 3]" "0x0F"]
  show ?thesis using run e1 e2 by simp
qed

subsection \<open>ADC: averaging (C10)\<close>

text \<open>
  Claim C10. On a running driver \<open>readAverage\<close> with a sample count of zero returns
  \<open>ESP_ERR_INVALID_ARG\<close> and leaves the object as it was, conversion counter included,
  so no sample was taken; and for no sample count at all does the division of the sum by
  the count meet a zero divisor.
\<close>

theorem readAverage_zero_samples:
  assumes "isRunning s"
  shows "readAverage drv ch 0 result s = Some (ESP_ERR_INVALID_ARG, result, s)
       \<and> readAverage drv ch samples result s \<noteq> None"
proof
  show "readAverage drv ch 0 result s = Some (ESP_ERR_INVALID_ARG, result, s)"
    using assms by (simp add: readAverage_def)
next
  show "readAverage drv ch samples result s \<noteq> None"
    by (auto simp: readAverage_def checked_div_def Let_def
             split: prod.splits option.splits)
qed

theorem readAverage_zero_samples_witness:
  "isRunning bench_running
   \<and> readAverage bench_adc 3 0 blank_result bench_running
       = Some (ESP_ERR_INVALID_ARG, blank_result, bench_running)
   \<and> readAverage bench_adc 3 4 blank_result bench_running \<noteq> None"
proof -
  have h: "isRunning bench_running"
    by (simp add: isRunning_def bench_running_def)
  from readAverage_zero_samples [OF h, of bench_adc 3 blank_result 4] show ?thesis
    using h by simp
qed

end
